theory Spec2Isabelle
  imports Complex_Main "HOL-Library.Monad_Syntax"
begin

section \<open>Python values and exceptions\<close>

text \<open>
  The exception classes that occur in the sources (\<^verbatim>\<open>app/pipeline.py\<close>,
  \<^verbatim>\<open>app/db.py\<close>, \<^verbatim>\<open>app/model.py\<close>) together with the built-in classes
  above them. \<open>mro\<close> lists a class and all its base classes, so that an
  \<^verbatim>\<open>except\<close> clause for a class also catches its subclasses, as in Python.
\<close>

datatype exc_kind =
    BaseException | KeyboardInterrupt | Exception
  | UnwrapError | TypeError | ValueError | ValidationError | PydanticSerializationError
  | AttributeError
  | LookupError | KeyError | IndexError | OverflowError
  | PyMongoError | RedisError | HttpError

fun mro :: "exc_kind \<Rightarrow> exc_kind list" where
  "mro BaseException = [BaseException]"
| "mro KeyboardInterrupt = [KeyboardInterrupt, BaseException]"
| "mro Exception = [Exception, BaseException]"
| "mro UnwrapError = [UnwrapError, Exception, BaseException]"
| "mro TypeError = [TypeError, Exception, BaseException]"
| "mro ValueError = [ValueError, Exception, BaseException]"
| "mro ValidationError = [ValidationError, ValueError, Exception, BaseException]"
| "mro PydanticSerializationError = [PydanticSerializationError, ValueError, Exception, BaseException]"
| "mro AttributeError = [AttributeError, Exception, BaseException]"
| "mro LookupError = [LookupError, Exception, BaseException]"
| "mro KeyError = [KeyError, LookupError, Exception, BaseException]"
| "mro IndexError = [IndexError, LookupError, Exception, BaseException]"
| "mro OverflowError = [OverflowError, Exception, BaseException]"
| "mro PyMongoError = [PyMongoError, Exception, BaseException]"
| "mro RedisError = [RedisError, Exception, BaseException]"
| "mro HttpError = [HttpError, Exception, BaseException]"

definition issubclass :: "exc_kind \<Rightarrow> exc_kind \<Rightarrow> bool" where
  "issubclass k c = (c \<in> set (mro k))"

text \<open>
  The values stored in the fields of a document (a MongoDB document, a dumped model):
  strings, booleans, floating-point numbers, timestamps (\<^verbatim>\<open>datetime\<close>, in
  microseconds since the epoch, naive UTC), arrays and embedded documents. A document
  is a Python \<^verbatim>\<open>dict\<close> with string keys.
\<close>

datatype bson =
    BStr string | BBool bool | BFloat real | BDate int
  | BArray "bson list" | BDoc "(string \<times> bson) list"

type_synonym doc = "string \<rightharpoonup> bson"

text \<open>
  The models of \<^verbatim>\<open>app/calendar_events.py\<close>, \<^verbatim>\<open>app/disaster_events.py\<close> and
  \<^verbatim>\<open>app/watcher.py\<close>. The field \<^verbatim>\<open>id\<close> of each model is renamed (\<open>id\<close> is
  the identity function of HOL), as are \<^verbatim>\<open>end\<close> and the field names two models
  share.
\<close>

record CalendarEvent =
  event_id :: string
  summary :: string
  location :: string
  coordinates :: "real \<times> real"
  creator :: string
  start :: int
  end_time :: int
  link :: string
  tracked :: bool

record DisasterCategory =
  category_id :: string
  title :: string
  category_description :: string

record DisasterEvent =
  disaster_id :: string
  name :: string
  description :: string
  disaster_link :: string
  categories :: "DisasterCategory list"
  active :: bool
  lat :: real
  lon :: real
  most_recent_date :: int
  magnitude :: string

record DisasterAlert =
  recipient :: string
  event :: CalendarEvent
  disasters :: "DisasterEvent list"
  dangerous :: bool

record ChannelInfo =
  channel_id :: string
  user_email :: string
  calendar_id :: string

text \<open>
  The dynamically typed values that flow through the pipelines. \<open>PSomething\<close>,
  \<open>PNothing\<close>, \<open>POk\<close> and \<open>PErr\<close> are instances of the classes
  \<^verbatim>\<open>Something\<close>, \<^verbatim>\<open>Nothing\<close>, \<^verbatim>\<open>Ok\<close> and \<^verbatim>\<open>Err\<close> of
  \<^verbatim>\<open>pipeline.py\<close>; \<open>PExc\<close> is an exception object with its argument;
  \<open>PDoc\<close> is a document, \<open>PCalendarEvent\<close> and \<open>PDisasterEvent\<close> are model
  instances; \<open>PObj\<close> is any other object that defines neither \<^verbatim>\<open>__bool__\<close> nor
  \<^verbatim>\<open>__len__\<close>.
\<close>

datatype pyval =
    PNone | PBool bool | PInt int | PStr string
  | PList "pyval list" | PTuple "pyval list" | PDict "(pyval \<times> pyval) list"
  | PSomething pyval | PNothing
  | POk pyval | PErr pyval
  | PExc exc_kind pyval
  | PDoc doc | PCalendarEvent CalendarEvent | PDisasterEvent DisasterEvent
  | PObj string

text \<open>A raised exception: its class and the object it carries.\<close>

datatype exc = Exc (kind: exc_kind) (arg: pyval)

text \<open>\<^verbatim>\<open>Result = Union[Ok[T], Err[E]]\<close> and \<^verbatim>\<open>Option = Union[Something[T], Nothing]\<close>.\<close>

datatype ('a, 'e) Result = Ok 'a | Err 'e

datatype 'a Option = Something 'a | Nothing

section \<open>The exception-to-Result boundary\<close>

text \<open>
  \<^verbatim>\<open>isinstance(e, classes)\<close> for a tuple of classes, as an \<^verbatim>\<open>except\<close> clause
  tests it.
\<close>

definition isinstance :: "exc \<Rightarrow> exc_kind list \<Rightarrow> bool" where
  "isinstance e classes = (\<exists>c \<in> set classes. issubclass (kind e) c)"

text \<open>
  A computation that may raise is a function into \<open>exc + 'r\<close>, \<open>Inl\<close> being the
  raised exception.
  \<^verbatim>\<open>
  def as_result(*exceptions):
      def decorator(func):
          def wrapper(*args, **kwargs):
              try:
                  return Ok(func(*args, **kwargs))
              except exceptions or Exception as e:
                  return Err(e)
              except UnwrapError as e:
                  return Err(e)
  \<close>
  The empty tuple is falsy, so \<^verbatim>\<open>exceptions or Exception\<close> is \<^verbatim>\<open>Exception\<close> when
  no class is declared.
\<close>

definition as_result :: "exc_kind list \<Rightarrow> ('x \<Rightarrow> exc + 'r) \<Rightarrow> 'x \<Rightarrow> exc + ('r, exc) Result" where
  "as_result exceptions func args =
     (case func args of
        Inr v \<Rightarrow> Inr (Ok v)
      | Inl e \<Rightarrow>
          if isinstance e (if exceptions = [] then [Exception] else exceptions) then Inr (Err e)
          else if isinstance e [UnwrapError] then Inr (Err e)
          else Inl e)"

text \<open>
  \<^verbatim>\<open>as_async_result\<close> has the first \<^verbatim>\<open>except\<close> clause only.
\<close>

definition as_async_result :: "exc_kind list \<Rightarrow> ('x \<Rightarrow> exc + 'r) \<Rightarrow> 'x \<Rightarrow> exc + ('r, exc) Result" where
  "as_async_result exceptions func args =
     (case func args of
        Inr v \<Rightarrow> Inr (Ok v)
      | Inl e \<Rightarrow>
          if isinstance e (if exceptions = [] then [Exception] else exceptions) then Inr (Err e)
          else Inl e)"

section \<open>Single-pass iterators\<close>

text \<open>
  \<^verbatim>\<open>bool(v)\<close>: \<^verbatim>\<open>None\<close>, \<^verbatim>\<open>False\<close>, zero and the empty string, list,
  tuple and dict are falsy. The classes \<^verbatim>\<open>Something\<close>, \<^verbatim>\<open>Nothing\<close>, \<^verbatim>\<open>Ok\<close>
  and \<^verbatim>\<open>Err\<close> define neither \<^verbatim>\<open>__bool__\<close> nor \<^verbatim>\<open>__len__\<close>
  (\<^verbatim>\<open>pipeline.py\<close>, lines 20-199), so every instance of them is truthy, and so
  is every pydantic model.
\<close>

fun truthy :: "pyval \<Rightarrow> bool" where
  "truthy PNone = False"
| "truthy (PBool b) = b"
| "truthy (PInt i) = (i \<noteq> 0)"
| "truthy (PStr s) = (s \<noteq> [])"
| "truthy (PList xs) = (xs \<noteq> [])"
| "truthy (PTuple xs) = (xs \<noteq> [])"
| "truthy (PDict kvs) = (kvs \<noteq> [])"
| "truthy (PSomething v) = True"
| "truthy PNothing = True"
| "truthy (POk v) = True"
| "truthy (PErr e) = True"
| "truthy (PExc k a) = True"
| "truthy (PDoc d) = (d \<noteq> Map.empty)"
| "truthy (PCalendarEvent e) = True"
| "truthy (PDisasterEvent d) = True"
| "truthy (PObj n) = True"

text \<open>
  An iterator is consumed by \<^verbatim>\<open>next\<close>, and several iterator objects may read the
  same underlying one: \<^verbatim>\<open>Pipeline.map\<close> builds \<^verbatim>\<open>map(func, self._iterator)\<close>
  over the very iterator the pipeline holds. The heap maps the address of a list iterator
  (\<^verbatim>\<open>iter(iterable)\<close>) to the items it has not yielded yet.
  \<open>MapIt\<close> is \<^verbatim>\<open>map(func, it)\<close> (and the generator of \<^verbatim>\<open>AsyncPipeline.map\<close>),
  \<open>FilterIt\<close> is \<^verbatim>\<open>filter(func, it)\<close> (and the generator of
  \<^verbatim>\<open>AsyncPipeline.filter\<close>), \<open>FilterMapIt\<close> is the generator of
  \<^verbatim>\<open>AsyncPipeline.filter_map\<close>:
  \<^verbatim>\<open>
  async for item in self._generator:
      if new := sync(item): yield new
  \<close>
  Transformers are total functions on values.
\<close>

type_synonym heap = "nat \<Rightarrow> pyval list"

datatype iterator =
    Source nat
  | MapIt "pyval \<Rightarrow> pyval" iterator
  | FilterIt "pyval \<Rightarrow> pyval" iterator
  | FilterMapIt "pyval \<Rightarrow> pyval" iterator

fun source :: "iterator \<Rightarrow> nat" where
  "source (Source a) = a"
| "source (MapIt f it) = source it"
| "source (FilterIt f it) = source it"
| "source (FilterMapIt f it) = source it"

text \<open>
  \<^verbatim>\<open>next(it)\<close>: the item, or \<open>None\<close> for \<^verbatim>\<open>StopIteration\<close>, and the heap after
  the call. A filter keeps pulling from the iterator below it until an item passes.
\<close>

function py_next :: "iterator \<Rightarrow> heap \<Rightarrow> pyval option \<times> heap" where
  "py_next (Source a) h =
     (case h a of [] \<Rightarrow> (None, h) | x # xs \<Rightarrow> (Some x, h(a := xs)))"
| "py_next (MapIt func it) h =
     (case py_next it h of
        (None, h') \<Rightarrow> (None, h')
      | (Some item, h') \<Rightarrow> (Some (func item), h'))"
| "py_next (FilterIt func it) h =
     (case py_next it h of
        (None, h') \<Rightarrow> (None, h')
      | (Some item, h') \<Rightarrow>
          if truthy (func item) then (Some item, h') else py_next (FilterIt func it) h')"
| "py_next (FilterMapIt func it) h =
     (case py_next it h of
        (None, h') \<Rightarrow> (None, h')
      | (Some item, h') \<Rightarrow>
          if truthy (func item) then (Some (func item), h') else py_next (FilterMapIt func it) h')"
  by pat_completeness auto

lemma py_next_dom_shrinks:
  "py_next_dom (it, h) \<Longrightarrow> py_next it h = (Some x, h') \<Longrightarrow>
     length (h' (source it)) < length (h (source it))"
proof (induction it h arbitrary: x h' rule: py_next.pinduct)
  case (1 a h)
  then show ?case by (auto simp: py_next.psimps split: list.splits)
next
  case (2 func it h)
  then show ?case by (auto simp: py_next.psimps split: prod.splits option.splits)
next
  case (3 func it h)
  from 3(1) 3(4) show ?case
    apply (simp add: py_next.psimps split: prod.splits option.splits if_splits)
    using 3(2) 3(3) by fastforce+
next
  case (4 func it h)
  from 4(1) 4(4) show ?case
    apply (simp add: py_next.psimps split: prod.splits option.splits if_splits)
    using 4(2) 4(3) by fastforce+
qed

termination py_next
  apply (relation "(\<lambda>(it, h). length (h (source it))) <*mlex*> measure (\<lambda>(it, h). size it)")
  apply (auto simp: mlex_prod_def dest: py_next_dom_shrinks [OF _ sym])
  done

text \<open>After the termination proof the two looping equations are unfolded by hand only.\<close>

lemma py_next_Filter:
  "py_next it h = (r, h1) \<Longrightarrow>
   py_next (FilterIt func it) h =
     (case r of None \<Rightarrow> (None, h1)
      | Some item \<Rightarrow> if truthy (func item) then (Some item, h1)
                     else py_next (FilterIt func it) h1)"
  by (subst py_next.simps) simp

lemma py_next_FilterMap:
  "py_next it h = (r, h1) \<Longrightarrow>
   py_next (FilterMapIt func it) h =
     (case r of None \<Rightarrow> (None, h1)
      | Some item \<Rightarrow> if truthy (func item) then (Some (func item), h1)
                     else py_next (FilterMapIt func it) h1)"
  by (subst py_next.simps) simp

lemma py_next_Map:
  "py_next it h = (r, h1) \<Longrightarrow>
   py_next (MapIt func it) h = (map_option func r, h1)"
  by (cases r) simp_all

lemmas [simp del] = py_next.simps(3) py_next.simps(4)

lemma py_next_shrinks:
  "py_next it h = (Some x, h') \<Longrightarrow> length (h' (source it)) < length (h (source it))"
proof (induction it h arbitrary: x h' rule: py_next.induct)
  case (1 a h)
  then show ?case by (auto split: list.splits)
next
  case (2 func it h)
  obtain r h1 where eq: "py_next it h = (r, h1)" by (cases "py_next it h")
  with 2 show ?case by (cases r) (auto simp: py_next_Map)
next
  case (3 func it h)
  obtain r h1 where eq: "py_next it h = (r, h1)" by (cases "py_next it h")
  show ?case
  proof (cases r)
    case None
    with 3(3) eq show ?thesis by (simp add: py_next_Filter)
  next
    case (Some item)
    show ?thesis
    proof (cases "truthy (func item)")
      case True
      with 3(3) eq Some have "x = item" "h' = h1" by (simp_all add: py_next_Filter)
      with 3(1) eq Some show ?thesis by simp
    next
      case False
      with 3(3) eq Some have "py_next (FilterIt func it) h1 = (Some x, h')"
        by (simp add: py_next_Filter)
      from 3(2) [OF eq [symmetric] Some False this] 3(1) [of item h1] eq Some
      show ?thesis by simp
    qed
  qed
next
  case (4 func it h)
  obtain r h1 where eq: "py_next it h = (r, h1)" by (cases "py_next it h")
  show ?case
  proof (cases r)
    case None
    with 4(3) eq show ?thesis by (simp add: py_next_FilterMap)
  next
    case (Some item)
    show ?thesis
    proof (cases "truthy (func item)")
      case True
      with 4(3) eq Some have "h' = h1" by (simp_all add: py_next_FilterMap)
      with 4(1) eq Some show ?thesis by simp
    next
      case False
      with 4(3) eq Some have "py_next (FilterMapIt func it) h1 = (Some x, h')"
        by (simp add: py_next_FilterMap)
      from 4(2) [OF eq [symmetric] Some False this] 4(1) [of item h1] eq Some
      show ?thesis by simp
    qed
  qed
qed

text \<open>
  Running an iterator to its end, as \<^verbatim>\<open>list(it)\<close>, \<^verbatim>\<open>tuple(it)\<close> and a
  comprehension over \<open>it\<close> do: the items in the order they are yielded.
\<close>

function drain :: "iterator \<Rightarrow> heap \<Rightarrow> pyval list \<times> heap" where
  "drain it h =
     (case py_next it h of
        (None, h') \<Rightarrow> ([], h')
      | (Some item, h') \<Rightarrow> (case drain it h' of (items, h'') \<Rightarrow> (item # items, h'')))"
  by pat_completeness auto
termination
  by (relation "measure (\<lambda>(it, h). length (h (source it)))")
     (auto dest: py_next_shrinks [OF sym])

lemmas [simp del] = drain.simps

section \<open>Pipelines\<close>

text \<open>
  \<^verbatim>\<open>Pipeline\<close> holds \<^verbatim>\<open>self._iterator = iter(iterable)\<close>; iterating the pipeline
  (\<^verbatim>\<open>__iter__\<close>) hands out that iterator. Each combinator wraps the same iterator:
  \<^verbatim>\<open>
  def map(self, func):        return Pipeline(map(func, self._iterator))
  def filter(self, func):     return Pipeline(filter(func, self._iterator))
  def filter_map(self, func): return Pipeline(filter(bool, map(func, self._iterator)))
  \<close>
\<close>

datatype Pipeline = Pipeline (iterator_of: iterator)

definition py_bool :: "pyval \<Rightarrow> pyval" where
  "py_bool v = PBool (truthy v)"

definition Pipeline_map :: "(pyval \<Rightarrow> pyval) \<Rightarrow> Pipeline \<Rightarrow> Pipeline" where
  "Pipeline_map func self = Pipeline (MapIt func (iterator_of self))"

definition Pipeline_filter :: "(pyval \<Rightarrow> pyval) \<Rightarrow> Pipeline \<Rightarrow> Pipeline" where
  "Pipeline_filter func self = Pipeline (FilterIt func (iterator_of self))"

definition Pipeline_filter_map :: "(pyval \<Rightarrow> pyval) \<Rightarrow> Pipeline \<Rightarrow> Pipeline" where
  "Pipeline_filter_map func self = Pipeline (FilterIt py_bool (MapIt func (iterator_of self)))"

text \<open>
  The container classes a pipeline is collected into. Of
  \<^verbatim>\<open>CollectionType = Union[type[list], type[tuple], type[set]]\<close> the repository
  only ever passes \<^verbatim>\<open>list\<close> and \<^verbatim>\<open>tuple\<close>; \<^verbatim>\<open>set\<close> is not modelled.
\<close>

datatype CollectionType = ListType | TupleType

datatype Collection = ListOf "pyval list" | TupleOf "pyval list"

fun construct :: "CollectionType \<Rightarrow> pyval list \<Rightarrow> Collection" where
  "construct ListType items = ListOf items"
| "construct TupleType items = TupleOf items"

fun truthy_collection :: "Collection \<Rightarrow> bool" where
  "truthy_collection (ListOf items) = (items \<noteq> [])"
| "truthy_collection (TupleOf items) = (items \<noteq> [])"

fun len :: "Collection \<Rightarrow> nat" where
  "len (ListOf items) = length items"
| "len (TupleOf items) = length items"

text \<open>
  \<^verbatim>\<open>
  def collect_as(self, class_):
      collection = class_(self._iterator)
      if collection and len(collection):
          return Something(collection)
      return Nothing()
  \<close>
  A list or tuple is truthy when it is not empty.
\<close>

definition Pipeline_collect_as :: "CollectionType \<Rightarrow> Pipeline \<Rightarrow> heap \<Rightarrow> Collection Option \<times> heap" where
  "Pipeline_collect_as cls self h =
     (case drain (iterator_of self) h of
        (items, h') \<Rightarrow>
          (let collection = construct cls items in
           if truthy_collection collection \<and> len collection \<noteq> 0 then (Something collection, h')
           else (Nothing, h')))"

text \<open>
  A pipeline obtained from another by a chain of combinators.
\<close>

datatype stage = Map "pyval \<Rightarrow> pyval" | Filter "pyval \<Rightarrow> pyval" | FilterMap "pyval \<Rightarrow> pyval"

fun apply_stage :: "Pipeline \<Rightarrow> stage \<Rightarrow> Pipeline" where
  "apply_stage p (Map func) = Pipeline_map func p"
| "apply_stage p (Filter func) = Pipeline_filter func p"
| "apply_stage p (FilterMap func) = Pipeline_filter_map func p"

definition derive :: "Pipeline \<Rightarrow> stage list \<Rightarrow> Pipeline" where
  "derive p stages = foldl apply_stage p stages"

text \<open>
  \<^verbatim>\<open>AsyncPipeline\<close> holds an asynchronous generator; each combinator returns a pipeline
  over a new generator that reads the old one (\<^verbatim>\<open>pipeline.py\<close>, lines 298-332).
  An awaited transformer and a plain one give the same items, so both are a function here.
\<close>

datatype AsyncPipeline = AsyncPipeline (generator_of: iterator)

definition AsyncPipeline_map :: "(pyval \<Rightarrow> pyval) \<Rightarrow> AsyncPipeline \<Rightarrow> AsyncPipeline" where
  "AsyncPipeline_map func self = AsyncPipeline (MapIt func (generator_of self))"

definition AsyncPipeline_filter :: "(pyval \<Rightarrow> pyval) \<Rightarrow> AsyncPipeline \<Rightarrow> AsyncPipeline" where
  "AsyncPipeline_filter func self = AsyncPipeline (FilterIt func (generator_of self))"

definition AsyncPipeline_filter_map :: "(pyval \<Rightarrow> pyval) \<Rightarrow> AsyncPipeline \<Rightarrow> AsyncPipeline" where
  "AsyncPipeline_filter_map func self = AsyncPipeline (FilterMapIt func (generator_of self))"

definition AsyncPipeline_collect_as ::
  "CollectionType \<Rightarrow> AsyncPipeline \<Rightarrow> heap \<Rightarrow> Collection Option \<times> heap" where
  "AsyncPipeline_collect_as cls self h =
     (case drain (generator_of self) h of
        (items, h') \<Rightarrow>
          (let collection = construct cls items in
           if truthy_collection collection \<and> len collection \<noteq> 0 then (Something collection, h')
           else (Nothing, h')))"

text \<open>
  \<^verbatim>\<open>Ok.unwrap\<close> returns the value, \<^verbatim>\<open>Err.unwrap\<close> raises
  \<^verbatim>\<open>UnwrapError(self, ...)\<close>; any other object has no \<^verbatim>\<open>unwrap\<close> attribute.
\<close>

fun unwrap :: "pyval \<Rightarrow> exc + pyval" where
  "unwrap (POk v) = Inr v"
| "unwrap (PErr e) = Inl (Exc UnwrapError (PErr e))"
| "unwrap v = Inl (Exc AttributeError v)"

text \<open>
  The comprehension \<^verbatim>\<open>[item.unwrap() async for item in self._generator]\<close>: items are
  pulled one at a time, and the first \<^verbatim>\<open>unwrap\<close> that raises ends the loop.
\<close>

function unwrap_all :: "iterator \<Rightarrow> heap \<Rightarrow> (exc + pyval list) \<times> heap" where
  "unwrap_all it h =
     (case py_next it h of
        (None, h') \<Rightarrow> (Inr [], h')
      | (Some item, h') \<Rightarrow>
          (case unwrap item of
             Inl e \<Rightarrow> (Inl e, h')
           | Inr v \<Rightarrow>
               (case unwrap_all it h' of
                  (Inl e, h'') \<Rightarrow> (Inl e, h'')
                | (Inr vs, h'') \<Rightarrow> (Inr (v # vs), h''))))"
  by pat_completeness auto
termination
  by (relation "measure (\<lambda>(it, h). length (h (source it)))")
     (auto dest: py_next_shrinks [OF sym])

lemmas [simp del] = unwrap_all.simps


section \<open>Models: dumping and validation\<close>

text \<open>\<^verbatim>\<open>Ok.ok()\<close> returns the value, \<^verbatim>\<open>Err.ok()\<close> returns \<^verbatim>\<open>None\<close>.\<close>

definition ok :: "('a, 'e) Result \<Rightarrow> 'a option" where
  "ok r = (case r of Ok v \<Rightarrow> Some v | Err e \<Rightarrow> None)"

text \<open>Reading a field of a given kind from a document.\<close>

definition get_str :: "doc \<Rightarrow> string \<Rightarrow> string option" where
  "get_str obj k = (case obj k of Some (BStr s) \<Rightarrow> Some s | _ \<Rightarrow> None)"

definition get_bool :: "doc \<Rightarrow> string \<Rightarrow> bool option" where
  "get_bool obj k = (case obj k of Some (BBool b) \<Rightarrow> Some b | _ \<Rightarrow> None)"

definition get_float :: "doc \<Rightarrow> string \<Rightarrow> real option" where
  "get_float obj k = (case obj k of Some (BFloat x) \<Rightarrow> Some x | _ \<Rightarrow> None)"

definition get_date :: "doc \<Rightarrow> string \<Rightarrow> int option" where
  "get_date obj k = (case obj k of Some (BDate t) \<Rightarrow> Some t | _ \<Rightarrow> None)"

definition get_pair :: "doc \<Rightarrow> string \<Rightarrow> (real \<times> real) option" where
  "get_pair obj k =
     (case obj k of Some (BArray [BFloat x, BFloat y]) \<Rightarrow> Some (x, y) | _ \<Rightarrow> None)"

text \<open>
  \<^verbatim>\<open>model_dump(by_alias=True)\<close> of a \<^verbatim>\<open>CalendarEvent\<close>: the field \<^verbatim>\<open>id\<close> is
  dumped under its alias \<^verbatim>\<open>_id\<close>.
\<close>

definition CalendarEvent_dump :: "CalendarEvent \<Rightarrow> doc" where
  "CalendarEvent_dump e =
     [''_id'' \<mapsto> BStr (event_id e),
      ''summary'' \<mapsto> BStr (summary e),
      ''location'' \<mapsto> BStr (location e),
      ''coordinates'' \<mapsto> BArray [BFloat (fst (coordinates e)), BFloat (snd (coordinates e))],
      ''creator'' \<mapsto> BStr (creator e),
      ''start'' \<mapsto> BDate (start e),
      ''end'' \<mapsto> BDate (end_time e),
      ''link'' \<mapsto> BStr (link e),
      ''tracked'' \<mapsto> BBool (tracked e)]"

text \<open>
  \<^verbatim>\<open>
  @as_result(PydanticSerializationError, TypeError)
  def to_(self, type_, by_alias=True, **kwargs):
      match type_:
          case builtins.dict: return self.model_dump(by_alias=by_alias, **kwargs)
  \<close>
  Only \<^verbatim>\<open>to_(dict)\<close> is used on events.
\<close>

definition CalendarEvent_to_dict :: "CalendarEvent \<Rightarrow> exc + (doc, exc) Result" where
  "CalendarEvent_to_dict self =
     as_result [PydanticSerializationError, TypeError] (\<lambda>e. Inr (CalendarEvent_dump e)) self"

text \<open>
  \<^verbatim>\<open>model_validate\<close> of a document as a \<^verbatim>\<open>CalendarEvent\<close>: every field
  but \<^verbatim>\<open>tracked\<close> (default \<^verbatim>\<open>False\<close>) must be there with a value of the field's
  kind, read under the alias \<^verbatim>\<open>_id\<close> for \<^verbatim>\<open>id\<close>; other keys are ignored.
  Pydantic's conversions between kinds are not modelled, and a document is taken to
  carry its \<^verbatim>\<open>_id\<close>, as every document of a collection does.
\<close>

definition tracked_of :: "doc \<Rightarrow> bool option" where
  "tracked_of obj =
     (case obj ''tracked'' of None \<Rightarrow> Some False | Some (BBool b) \<Rightarrow> Some b | Some _ \<Rightarrow> None)"

definition CalendarEvent_fields :: "doc \<Rightarrow> CalendarEvent option" where
  "CalendarEvent_fields obj = do {
     i \<leftarrow> get_str obj ''_id'';
     s \<leftarrow> get_str obj ''summary'';
     l \<leftarrow> get_str obj ''location'';
     c \<leftarrow> get_pair obj ''coordinates'';
     cr \<leftarrow> get_str obj ''creator'';
     st \<leftarrow> get_date obj ''start'';
     en \<leftarrow> get_date obj ''end'';
     li \<leftarrow> get_str obj ''link'';
     t \<leftarrow> tracked_of obj;
     Some \<lparr>event_id = i, summary = s, location = l, coordinates = c, creator = cr,
           start = st, end_time = en, link = li, tracked = t\<rparr>
   }"

definition CalendarEvent_model_validate :: "doc \<Rightarrow> exc + CalendarEvent" where
  "CalendarEvent_model_validate obj =
     (case CalendarEvent_fields obj of
        Some e \<Rightarrow> Inr e
      | None \<Rightarrow> Inl (Exc ValidationError (PDoc obj)))"

text \<open>
  \<^verbatim>\<open>
  @classmethod
  @as_result(ValidationError, TypeError, ValueError)
  def from_(cls, obj, **kwargs):
      match obj:
          case dict():
              adjusted = {**obj, "_id": obj["id"]} if "id" in obj else obj
              return cls.model_validate(adjusted, **kwargs)
  \<close>
\<close>

definition adjusted :: "doc \<Rightarrow> doc" where
  "adjusted obj = (case obj ''id'' of Some v \<Rightarrow> obj(''_id'' \<mapsto> v) | None \<Rightarrow> obj)"

definition CalendarEvent_from :: "doc \<Rightarrow> exc + (CalendarEvent, exc) Result" where
  "CalendarEvent_from obj =
     as_result [ValidationError, TypeError, ValueError]
       (\<lambda>obj. CalendarEvent_model_validate (adjusted obj)) obj"

text \<open>
  \<^verbatim>\<open>
  @as_result(ValidationError)
  def update(self, **fields):
      return self.copy(update=fields)
  \<close>
  called as \<^verbatim>\<open>update(tracked=...)\<close>.
\<close>

definition CalendarEvent_update_tracked :: "bool \<Rightarrow> CalendarEvent \<Rightarrow> exc + (CalendarEvent, exc) Result" where
  "CalendarEvent_update_tracked t self =
     as_result [ValidationError] (\<lambda>e. Inr (e\<lparr>tracked := t\<rparr>)) self"

text \<open>
  \<^verbatim>\<open>DisasterCategory\<close> and \<^verbatim>\<open>DisasterEvent\<close>. The field
  \<^verbatim>\<open>categories: tuple[DisasterCategory]\<close> is declared as a tuple of exactly one
  category, and pydantic validates it as such; \<^verbatim>\<open>description\<close> defaults to the
  empty string.
\<close>

definition DisasterCategory_fields :: "(string \<times> bson) list \<Rightarrow> DisasterCategory option" where
  "DisasterCategory_fields kvs = do {
     i \<leftarrow> get_str (map_of kvs) ''_id'';
     t \<leftarrow> get_str (map_of kvs) ''title'';
     d \<leftarrow> get_str (map_of kvs) ''description'';
     Some \<lparr>category_id = i, title = t, category_description = d\<rparr>
   }"

definition categories_of :: "doc \<Rightarrow> DisasterCategory list option" where
  "categories_of obj =
     (case obj ''categories'' of
        Some (BArray [BDoc kvs]) \<Rightarrow> map_option (\<lambda>c. [c]) (DisasterCategory_fields kvs)
      | _ \<Rightarrow> None)"

definition description_of :: "doc \<Rightarrow> string option" where
  "description_of obj =
     (case obj ''description'' of None \<Rightarrow> Some [] | Some (BStr s) \<Rightarrow> Some s | Some _ \<Rightarrow> None)"

definition DisasterEvent_fields :: "doc \<Rightarrow> DisasterEvent option" where
  "DisasterEvent_fields obj = do {
     i \<leftarrow> get_str obj ''_id'';
     n \<leftarrow> get_str obj ''name'';
     d \<leftarrow> description_of obj;
     li \<leftarrow> get_str obj ''link'';
     cs \<leftarrow> categories_of obj;
     a \<leftarrow> get_bool obj ''active'';
     la \<leftarrow> get_float obj ''lat'';
     lo \<leftarrow> get_float obj ''lon'';
     m \<leftarrow> get_date obj ''most_recent_date'';
     mg \<leftarrow> get_str obj ''magnitude'';
     Some \<lparr>disaster_id = i, name = n, description = d, disaster_link = li, categories = cs,
           active = a, lat = la, lon = lo, most_recent_date = m, magnitude = mg\<rparr>
   }"

definition DisasterEvent_model_validate :: "doc \<Rightarrow> exc + DisasterEvent" where
  "DisasterEvent_model_validate obj =
     (case DisasterEvent_fields obj of
        Some e \<Rightarrow> Inr e
      | None \<Rightarrow> Inl (Exc ValidationError (PDoc obj)))"

definition DisasterEvent_from :: "doc \<Rightarrow> exc + (DisasterEvent, exc) Result" where
  "DisasterEvent_from obj =
     as_result [ValidationError, TypeError, ValueError]
       (\<lambda>obj. DisasterEvent_model_validate (adjusted obj)) obj"

text \<open>
  \<^verbatim>\<open>ChannelInfo\<close> has the required fields \<^verbatim>\<open>id\<close>, \<^verbatim>\<open>user_email\<close> and
  \<^verbatim>\<open>calendar_id\<close>, and no alias; \<^verbatim>\<open>to_(dict, exclude={"id"})\<close> dumps the other two.
\<close>

definition ChannelInfo_dump_exclude_id :: "ChannelInfo \<Rightarrow> doc" where
  "ChannelInfo_dump_exclude_id c =
     [''user_email'' \<mapsto> BStr (user_email c), ''calendar_id'' \<mapsto> BStr (calendar_id c)]"

definition ChannelInfo_to_dict_exclude_id :: "ChannelInfo \<Rightarrow> exc + (doc, exc) Result" where
  "ChannelInfo_to_dict_exclude_id self =
     as_result [PydanticSerializationError, TypeError]
       (\<lambda>c. Inr (ChannelInfo_dump_exclude_id c)) self"

definition ChannelInfo_fields :: "doc \<Rightarrow> ChannelInfo option" where
  "ChannelInfo_fields obj = do {
     i \<leftarrow> get_str obj ''id'';
     u \<leftarrow> get_str obj ''user_email'';
     c \<leftarrow> get_str obj ''calendar_id'';
     Some \<lparr>channel_id = i, user_email = u, calendar_id = c\<rparr>
   }"

definition ChannelInfo_model_validate :: "doc \<Rightarrow> exc + ChannelInfo" where
  "ChannelInfo_model_validate obj =
     (case ChannelInfo_fields obj of
        Some c \<Rightarrow> Inr c
      | None \<Rightarrow> Inl (Exc ValidationError (PDoc obj)))"

definition ChannelInfo_from :: "doc \<Rightarrow> exc + (ChannelInfo, exc) Result" where
  "ChannelInfo_from obj =
     as_result [ValidationError, TypeError, ValueError]
       (\<lambda>obj. ChannelInfo_model_validate (adjusted obj)) obj"

section \<open>Event storage\<close>

text \<open>
  A MongoDB collection: its documents in their natural order. The driver is an external
  collaborator; what the model keeps of it is that \<^verbatim>\<open>find_one\<close> returns the first
  document with the given \<^verbatim>\<open>_id\<close>, that \<^verbatim>\<open>update_one\<close> with \<^verbatim>\<open>$set\<close> and
  \<^verbatim>\<open>upsert=True\<close> overwrites the given fields of that document, or inserts a document
  made of the \<^verbatim>\<open>_id\<close> and the fields when there is none, and that a call may raise
  instead (the argument \<open>fault\<close> of each operation: the exception the driver raises in
  this call, if any), in which case nothing is written.
\<close>

type_synonym collection = "doc list"

definition has_id :: "string \<Rightarrow> doc \<Rightarrow> bool" where
  "has_id i d = (d ''_id'' = Some (BStr i))"

definition find_one :: "string \<Rightarrow> collection \<Rightarrow> doc option" where
  "find_one i coll = List.find (has_id i) coll"

fun update_one :: "string \<Rightarrow> doc \<Rightarrow> collection \<Rightarrow> collection \<times> nat" where
  "update_one i set_fields [] = ([[''_id'' \<mapsto> BStr i] ++ set_fields], 0)"
| "update_one i set_fields (d # ds) =
     (if has_id i d then ((d ++ set_fields) # ds, 1)
      else (case update_one i set_fields ds of (ds', matched) \<Rightarrow> (d # ds', matched)))"

text \<open>
  \<^verbatim>\<open>
  @as_async_result(PyMongoError, AttributeError)
  async def get_by_id(self, _id):
      match await self._collection.find_one({"_id": _id}):
          case dict(doc): return Something(doc)
          case _: return Nothing()
  \<close>
\<close>

definition EventStorage_get_by_id ::
  "exc option \<Rightarrow> string \<Rightarrow> collection \<Rightarrow> exc + (doc Option, exc) Result" where
  "EventStorage_get_by_id fault i coll =
     as_async_result [PyMongoError, AttributeError]
       (\<lambda>u::unit. case fault of
                     Some e \<Rightarrow> Inl e
                   | None \<Rightarrow> (case find_one i coll of
                                Some d \<Rightarrow> Inr (Something d)
                              | None \<Rightarrow> Inr Nothing)) ()"

text \<open>
  \<^verbatim>\<open>
  @as_async_result(PyMongoError, AttributeError)
  async def update_by_id(self, _id, **fields):
      return (await self._collection.update_one(
          filter={"_id": _id}, update={"$set": fields}, upsert=True)).matched_count
  \<close>
\<close>

definition EventStorage_update_by_id ::
  "exc option \<Rightarrow> string \<Rightarrow> doc \<Rightarrow> collection \<Rightarrow> (exc + (nat, exc) Result) \<times> collection" where
  "EventStorage_update_by_id fault i set_fields coll =
     (case fault of
        Some e \<Rightarrow> (as_async_result [PyMongoError, AttributeError] (\<lambda>u::unit. Inl e) (), coll)
      | None \<Rightarrow>
          (case update_one i set_fields coll of
             (coll', matched) \<Rightarrow>
               (as_async_result [PyMongoError, AttributeError] (\<lambda>u::unit. Inr matched) (), coll')))"

text \<open>
  The argument \<^verbatim>\<open>var\<close> of \<^verbatim>\<open>insert\<close>: a \<^verbatim>\<open>dict\<close>, an iterable of
  \<^verbatim>\<open>dict\<close>s, a pydantic model (which is not a \<^verbatim>\<open>dict\<close>, and is iterable: iterating
  it yields pairs of a field name and a value), or anything else.
  \<^verbatim>\<open>
  @as_async_result(PyMongoError, AttributeError)
  async def insert(self, var: dict | Iterable[dict]) -> bool:
      match var:
          case dict():
              return (await self._collection.insert_one(var)).acknowledged
          case _ if isinstance(var, Iterable):
              return (await self._collection.insert_many(var)).acknowledged
          case _: raise TypeError(f"Incompatible `body` for EventStorage")
  \<close>
  \<^verbatim>\<open>insert_one\<close> raises \<^verbatim>\<open>DuplicateKeyError\<close> (a \<^verbatim>\<open>PyMongoError\<close>) for an
  \<^verbatim>\<open>_id\<close> already in the collection; the \<^verbatim>\<open>_id\<close> the driver gives a document
  without one is not modelled. \<^verbatim>\<open>insert_many\<close> raises \<^verbatim>\<open>TypeError\<close> for an empty
  list and for an item that is not a document, before it writes anything; an ordered
  insert stops at the first duplicate.
\<close>

datatype var = DictVar doc | IterableVar "doc list" | ModelVar CalendarEvent | OtherVar

definition insert_one :: "doc \<Rightarrow> collection \<Rightarrow> exc + collection" where
  "insert_one d coll =
     (case d ''_id'' of
        Some v \<Rightarrow>
          if list_ex (\<lambda>d'. d' ''_id'' = Some v) coll then Inl (Exc PyMongoError (PDoc d))
          else Inr (coll @ [d])
      | None \<Rightarrow> Inr (coll @ [d]))"

fun insert_many :: "doc list \<Rightarrow> collection \<Rightarrow> (exc + bool) \<times> collection" where
  "insert_many [] coll = (Inr True, coll)"
| "insert_many (d # ds) coll =
     (case insert_one d coll of
        Inl e \<Rightarrow> (Inl e, coll)
      | Inr coll' \<Rightarrow> insert_many ds coll')"

definition insert_body :: "var \<Rightarrow> collection \<Rightarrow> (exc + bool) \<times> collection" where
  "insert_body v coll =
     (case v of
        DictVar d \<Rightarrow>
          (case insert_one d coll of Inl e \<Rightarrow> (Inl e, coll) | Inr coll' \<Rightarrow> (Inr True, coll'))
      | IterableVar ds \<Rightarrow>
          (if ds = [] then (Inl (Exc TypeError (PList [])), coll) else insert_many ds coll)
      | ModelVar m \<Rightarrow> (Inl (Exc TypeError (PCalendarEvent m)), coll)
      | OtherVar \<Rightarrow> (Inl (Exc TypeError PNone), coll))"

definition EventStorage_insert ::
  "exc option \<Rightarrow> var \<Rightarrow> collection \<Rightarrow> (exc + (bool, exc) Result) \<times> collection" where
  "EventStorage_insert fault v coll =
     (case fault of
        Some e \<Rightarrow> (as_async_result [PyMongoError, AttributeError] (\<lambda>u::unit. Inl e) (), coll)
      | None \<Rightarrow>
          (case insert_body v coll of
             (r, coll') \<Rightarrow>
               (as_async_result [PyMongoError, AttributeError] (\<lambda>u::unit. r) (), coll')))"

text \<open>
  Queries. A condition on a field is a value the field must equal, or a range
  \<^verbatim>\<open>{"$gte": lo, "$lte": hi}\<close>; a document matches when each named field is present
  and meets its condition. Values are compared within one kind.
\<close>

datatype cond = Equals bson | Between bson bson

type_synonym query = "(string \<times> cond) list"

fun bson_le :: "bson \<Rightarrow> bson \<Rightarrow> bool" where
  "bson_le (BFloat x) (BFloat y) = (x \<le> y)"
| "bson_le (BDate s) (BDate t) = (s \<le> t)"
| "bson_le a b = False"

fun meets :: "bson option \<Rightarrow> cond \<Rightarrow> bool" where
  "meets None c = False"
| "meets (Some v) (Equals b) = (v = b)"
| "meets (Some v) (Between lo hi) = (bson_le lo v \<and> bson_le v hi)"

definition matches :: "query \<Rightarrow> doc \<Rightarrow> bool" where
  "matches by d = list_all (\<lambda>(k, c). meets (d k) c) by"

text \<open>
  \<^verbatim>\<open>
  @as_result(PyMongoError, AttributeError)
  async def find(self, **by):
      async for doc in self._collection.find(by):
          if doc:
              yield doc
  \<close>
  Calling an asynchronous generator function runs none of its body, so the call
  returns \<^verbatim>\<open>Ok\<close> of the generator. The driver's cursor is the list iterator at the
  fresh address \<open>a\<close>, over the matching documents; the generator filters it.
\<close>

definition EventStorage_find ::
  "query \<Rightarrow> collection \<Rightarrow> nat \<Rightarrow> heap \<Rightarrow> (exc + (iterator, exc) Result) \<times> heap" where
  "EventStorage_find by coll a h =
     (as_result [PyMongoError, AttributeError]
        (\<lambda>u::unit. Inr (FilterIt (\<lambda>doc. doc) (Source a))) (),
      h(a := map PDoc (filter (matches by) coll)))"

section \<open>The calendar tracker\<close>

text \<open>
  \<^verbatim>\<open>
  async def create_event(self, event):
      return await self._storage.insert(event)

  async def create_or_update_event(self, event):
      return await self._storage.update_by_id(**event.to_(dict).ok())
  \<close>
  \<^verbatim>\<open>create_event\<close> hands the model itself to \<^verbatim>\<open>insert\<close>;
  \<^verbatim>\<open>create_or_update_event\<close> hands \<^verbatim>\<open>update_by_id\<close> the dumped fields, of
  which \<^verbatim>\<open>_id\<close> binds the first parameter.
\<close>

definition create_event ::
  "exc option \<Rightarrow> CalendarEvent \<Rightarrow> collection \<Rightarrow> (exc + (bool, exc) Result) \<times> collection" where
  "create_event fault ev coll = EventStorage_insert fault (ModelVar ev) coll"

definition create_or_update_event ::
  "exc option \<Rightarrow> CalendarEvent \<Rightarrow> collection \<Rightarrow> (exc + (nat, exc) Result) \<times> collection" where
  "create_or_update_event fault ev coll =
     (case CalendarEvent_to_dict ev of
        Inl e \<Rightarrow> (Inl e, coll)
      | Inr r \<Rightarrow>
          (case ok r of
             None \<Rightarrow> (Inl (Exc TypeError PNone), coll)
           | Some d \<Rightarrow>
               (case d ''_id'' of
                  Some (BStr i) \<Rightarrow> EventStorage_update_by_id fault i (d(''_id'' := None)) coll
                | _ \<Rightarrow> (Inl (Exc TypeError (PDoc d)), coll))))"

text \<open>
  \<^verbatim>\<open>
  async def get_event(self, event_id):
      match await self._storage.get_by_id(event_id):
          case Ok(Something(event_raw)):
              match CalendarEvent.from_(event_raw):
                  case Ok(event): return Ok(Something(event))
                  case err: return err
          case other : return other
  \<close>
\<close>

definition get_event ::
  "exc option \<Rightarrow> string \<Rightarrow> collection \<Rightarrow> exc + (CalendarEvent Option, exc) Result" where
  "get_event fault i coll =
     (case EventStorage_get_by_id fault i coll of
        Inl e \<Rightarrow> Inl e
      | Inr (Ok (Something event_raw)) \<Rightarrow>
          (case CalendarEvent_from event_raw of
             Inl e \<Rightarrow> Inl e
           | Inr (Ok ev) \<Rightarrow> Inr (Ok (Something ev))
           | Inr (Err e) \<Rightarrow> Inr (Err e))
      | Inr (Ok Nothing) \<Rightarrow> Inr (Ok Nothing)
      | Inr (Err e) \<Rightarrow> Inr (Err e))"

text \<open>
  The driver faults of one \<^verbatim>\<open>sync_event\<close> call: of its read and of its write.
  \<^verbatim>\<open>
  async def sync_event(self, updated):
      match await self.get_event(updated.id):
          case Ok(Something(event)):
              ready = updated.update(tracked=event.tracked).ok()
              match await self.create_or_update_event(ready):
                  case Ok(_): return Ok(ready)
                  case err: return err
          case Ok(Nothing()):
              match await self.create_event(updated):
                  case Ok(_): return Ok(updated)
                  case err: return err
          case err: return err
  \<close>
\<close>

record faults =
  read_fault :: "exc option"
  write_fault :: "exc option"

definition sync_event ::
  "faults \<Rightarrow> CalendarEvent \<Rightarrow> collection \<Rightarrow> (exc + (CalendarEvent, exc) Result) \<times> collection" where
  "sync_event flt updated coll =
     (case get_event (read_fault flt) (event_id updated) coll of
        Inl e \<Rightarrow> (Inl e, coll)
      | Inr (Ok (Something ev)) \<Rightarrow>
          (case CalendarEvent_update_tracked (tracked ev) updated of
             Inl e \<Rightarrow> (Inl e, coll)
           | Inr r \<Rightarrow>
               (case ok r of
                  None \<Rightarrow> (Inl (Exc AttributeError PNone), coll)
                | Some ready \<Rightarrow>
                    (case create_or_update_event (write_fault flt) ready coll of
                       (Inl e, coll') \<Rightarrow> (Inl e, coll')
                     | (Inr (Ok n), coll') \<Rightarrow> (Inr (Ok ready), coll')
                     | (Inr (Err e), coll') \<Rightarrow> (Inr (Err e), coll'))))
      | Inr (Ok Nothing) \<Rightarrow>
          (case create_event (write_fault flt) updated coll of
             (Inl e, coll') \<Rightarrow> (Inl e, coll')
           | (Inr (Ok b), coll') \<Rightarrow> (Inr (Ok updated), coll')
           | (Inr (Err e), coll') \<Rightarrow> (Inr (Err e), coll'))
      | Inr (Err e) \<Rightarrow> (Inr (Err e), coll))"

text \<open>
  Two abbreviations for the statements below: the fields \<^verbatim>\<open>create_or_update_event\<close>
  sets (the dump without \<^verbatim>\<open>_id\<close>), and the \<^verbatim>\<open>tracked\<close> bit of the record
  \<^verbatim>\<open>get_event\<close> reads for an id, if it reads one.
\<close>

definition set_fields_of :: "CalendarEvent \<Rightarrow> doc" where
  "set_fields_of e = (CalendarEvent_dump e)(''_id'' := None)"

definition stored_tracked :: "collection \<Rightarrow> string \<Rightarrow> bool option" where
  "stored_tracked coll i =
     (case find_one i coll of
        Some raw \<Rightarrow> (case CalendarEvent_from raw of Inr (Ok e) \<Rightarrow> Some (tracked e) | _ \<Rightarrow> None)
      | None \<Rightarrow> None)"









section \<open>The disaster tracker\<close>

text \<open>
  \<^verbatim>\<open>utils.calc_destination_point_by(point, d, bearing)\<close> is floating-point
  trigonometry; it is the parameter \<open>dest\<close> of the functions below.
  \<^verbatim>\<open>
  async def scan_active_disasters(self, point):
      northeast = utils.calc_destination_point_by(point, self._DISASTER_DISTANCE_THRESHOLD_KM, bearing=45)
      southwest = utils.calc_destination_point_by(point, self._DISASTER_DISTANCE_THRESHOLD_KM, bearing=225)
      max_lat, max_lon = northeast
      min_lat, min_lon = southwest
      match self._storage.find(
          lat={"$gte": min_lat, "$lte": max_lat},
          lon={"$gte": min_lon, "$lte": max_lon},
          active=True
      ):
          case Ok(disaster_gen):
              return await AsyncPipeline(disaster_gen).filter_map(
                  lambda obj: DisasterEvent.from_(obj).ok()
              ).collect_as(tuple)
      return Nothing()
  \<close>
\<close>

definition DISASTER_DISTANCE_THRESHOLD_KM :: real where
  "DISASTER_DISTANCE_THRESHOLD_KM = 500"

definition disaster_or_none :: "pyval \<Rightarrow> pyval" where
  "disaster_or_none v =
     (case v of
        PDoc d \<Rightarrow> (case DisasterEvent_from d of Inr (Ok e) \<Rightarrow> PDisasterEvent e | _ \<Rightarrow> PNone)
      | _ \<Rightarrow> PNone)"

definition scan_active_disasters ::
  "(real \<times> real \<Rightarrow> real \<Rightarrow> real \<Rightarrow> real \<times> real) \<Rightarrow> real \<times> real \<Rightarrow> collection \<Rightarrow> nat \<Rightarrow> heap
     \<Rightarrow> (exc + Collection Option) \<times> heap" where
  "scan_active_disasters dest point coll a h =
     (case (dest point DISASTER_DISTANCE_THRESHOLD_KM 45,
            dest point DISASTER_DISTANCE_THRESHOLD_KM 225) of
        ((max_lat, max_lon), (min_lat, min_lon)) \<Rightarrow>
          (case EventStorage_find
                  [(''lat'', Between (BFloat min_lat) (BFloat max_lat)),
                   (''lon'', Between (BFloat min_lon) (BFloat max_lon)),
                   (''active'', Equals (BBool True))] coll a h of
             (Inr (Ok disaster_gen), h') \<Rightarrow>
               (case AsyncPipeline_collect_as TupleType
                       (AsyncPipeline_filter_map disaster_or_none (AsyncPipeline disaster_gen)) h' of
                  (found, h'') \<Rightarrow> (Inr found, h''))
           | (Inr (Err e), h') \<Rightarrow> (Inr Nothing, h')
           | (Inl e, h') \<Rightarrow> (Inl e, h')))"

text \<open>
  Constructing a \<^verbatim>\<open>DisasterAlert\<close> validates its fields. The field
  \<^verbatim>\<open>disasters: tuple[DisasterEvent]\<close> is declared as a tuple of exactly one
  \<^verbatim>\<open>DisasterEvent\<close>, and pydantic validates it as such: a collection of any other
  length raises \<^verbatim>\<open>ValidationError\<close>. \<^verbatim>\<open>dangerous\<close> defaults to \<^verbatim>\<open>True\<close>.
\<close>

definition DisasterAlert_new :: "string \<Rightarrow> CalendarEvent \<Rightarrow> Collection \<Rightarrow> exc + DisasterAlert" where
  "DisasterAlert_new r ev ds =
     (case ds of
        TupleOf [PDisasterEvent d] \<Rightarrow>
          Inr \<lparr>recipient = r, event = ev, disasters = [d], dangerous = True\<rparr>
      | ListOf [PDisasterEvent d] \<Rightarrow>
          Inr \<lparr>recipient = r, event = ev, disasters = [d], dangerous = True\<rparr>
      | _ \<Rightarrow> Inl (Exc ValidationError PNone))"

text \<open>
  \<^verbatim>\<open>
  async def check_calendar_event(self, event):
      match await self.scan_active_disasters(event.coordinates):
          case Something(disasters): return Something(
              DisasterAlert(recipient=event.creator, event=event, disasters=disasters))
      return Nothing()
  \<close>
  Nothing here catches what the constructor raises.
\<close>

definition check_calendar_event ::
  "(real \<times> real \<Rightarrow> real \<Rightarrow> real \<Rightarrow> real \<times> real) \<Rightarrow> CalendarEvent \<Rightarrow> collection \<Rightarrow> nat \<Rightarrow> heap
     \<Rightarrow> (exc + DisasterAlert Option) \<times> heap" where
  "check_calendar_event dest ev coll a h =
     (case scan_active_disasters dest (coordinates ev) coll a h of
        (Inl e, h') \<Rightarrow> (Inl e, h')
      | (Inr (Something ds), h') \<Rightarrow>
          (case DisasterAlert_new (creator ev) ev ds of
             Inl e \<Rightarrow> (Inl e, h')
           | Inr alert \<Rightarrow> (Inr (Something alert), h'))
      | (Inr Nothing, h') \<Rightarrow> (Inr Nothing, h'))"

section \<open>The channel registry\<close>

text \<open>
  The key-value store behind \<^verbatim>\<open>QuickStorage\<close>: a hash (a mapping of field names to
  strings) under each key. \<^verbatim>\<open>hset(key, mapping=m)\<close> iterates \<^verbatim>\<open>m.items()\<close>, so
  an argument that is not a mapping raises \<^verbatim>\<open>AttributeError\<close> before anything is
  sent; an empty mapping raises \<^verbatim>\<open>DataError\<close>, a \<^verbatim>\<open>RedisError\<close>.
  \<^verbatim>\<open>hgetall\<close> returns the hash, and the empty dictionary for a key that is not there.
  The argument \<open>fault\<close> is the exception the connection raises in this call, if any.
\<close>

type_synonym redis = "string \<rightharpoonup> doc"

datatype mapping_arg = DictArg doc | ResultArg "(doc, exc) Result"

definition hset :: "exc option \<Rightarrow> string \<Rightarrow> mapping_arg \<Rightarrow> redis \<Rightarrow> (exc + nat) \<times> redis" where
  "hset fault key mapping r =
     (case mapping of
        ResultArg res \<Rightarrow> (Inl (Exc AttributeError PNone), r)
      | DictArg m \<Rightarrow>
          if m = Map.empty then (Inl (Exc RedisError PNone), r)
          else (case fault of
                  Some e \<Rightarrow> (Inl e, r)
                | None \<Rightarrow>
                    (case r key of
                       None \<Rightarrow> (Inr (card (dom m)), r(key \<mapsto> m))
                     | Some old \<Rightarrow> (Inr (card (dom m - dom old)), r(key \<mapsto> old ++ m)))))"

definition hgetall :: "string \<Rightarrow> redis \<Rightarrow> doc" where
  "hgetall key r = (case r key of None \<Rightarrow> Map.empty | Some m \<Rightarrow> m)"

text \<open>
  \<^verbatim>\<open>
  @as_async_result(RedisError)
  @_inject_client
  @prefix
  async def set_map(self, key, mapping, *, client):
      return await client.hset(key, mapping=mapping)

  @as_async_result(RedisError)
  @_inject_client
  @prefix
  async def get_map(self, key, *, client):
      match await client.hgetall(key):
          case None: return Nothing()
          case val: return Something(val)
  \<close>
  \<open>prefix\<close> is \<^verbatim>\<open>self._prefix\<close>, put before the key.
\<close>

definition QuickStorage_set_map ::
  "exc option \<Rightarrow> string \<Rightarrow> string \<Rightarrow> mapping_arg \<Rightarrow> redis \<Rightarrow> (exc + (nat, exc) Result) \<times> redis" where
  "QuickStorage_set_map fault prefix key mapping r =
     (case hset fault (prefix @ key) mapping r of
        (res, r') \<Rightarrow> (as_async_result [RedisError] (\<lambda>u::unit. res) (), r'))"

definition QuickStorage_get_map ::
  "exc option \<Rightarrow> string \<Rightarrow> string \<Rightarrow> redis \<Rightarrow> exc + (doc Option, exc) Result" where
  "QuickStorage_get_map fault prefix key r =
     as_async_result [RedisError]
       (\<lambda>u::unit. case fault of
                     Some e \<Rightarrow> Inl e
                   | None \<Rightarrow> Inr (Something (hgetall (prefix @ key) r))) ()"

text \<open>
  \<^verbatim>\<open>EventChannels\<close> uses \<^verbatim>\<open>QuickStorage(prefix="PREFERENCES:")\<close>.
  \<^verbatim>\<open>
  async def create(self, channel_info):
      return await self._storage.set_map(
          channel_info.id,
          mapping=channel_info.to_(dict, exclude={"id"})
      )

  async def get(self, channel_id):
      match await self._storage.get_map(channel_id):
          case Ok(obj_result):
              match obj_result:
                  case Something(obj): return ChannelInfo.from_(obj)
                  case _: return Ok(Nothing())
          case err: return err
  \<close>
  \<^verbatim>\<open>to_\<close> is decorated with \<^verbatim>\<open>as_result\<close>, so \<^verbatim>\<open>create\<close> passes a
  \<^verbatim>\<open>Result\<close> as the mapping. \<^verbatim>\<open>get\<close> returns what \<^verbatim>\<open>from_\<close> returns,
  \<^verbatim>\<open>Ok\<close> of the model itself, or \<^verbatim>\<open>Ok(Nothing())\<close>: the two shapes of its
  \<^verbatim>\<open>Ok\<close> value are the constructors of \<open>channel_answer\<close>.
\<close>

definition channels_prefix :: string where
  "channels_prefix = ''PREFERENCES:''"

datatype channel_answer = Model ChannelInfo | Opt "ChannelInfo Option"

definition EventChannels_create ::
  "exc option \<Rightarrow> ChannelInfo \<Rightarrow> redis \<Rightarrow> (exc + (nat, exc) Result) \<times> redis" where
  "EventChannels_create fault channel_info r =
     (case ChannelInfo_to_dict_exclude_id channel_info of
        Inl e \<Rightarrow> (Inl e, r)
      | Inr res \<Rightarrow>
          QuickStorage_set_map fault channels_prefix (channel_id channel_info) (ResultArg res) r)"

definition EventChannels_get ::
  "exc option \<Rightarrow> string \<Rightarrow> redis \<Rightarrow> exc + (channel_answer, exc) Result" where
  "EventChannels_get fault cid r =
     (case QuickStorage_get_map fault channels_prefix cid r of
        Inl e \<Rightarrow> Inl e
      | Inr (Ok (Something obj)) \<Rightarrow>
          (case ChannelInfo_from obj of
             Inl e \<Rightarrow> Inl e
           | Inr (Ok c) \<Rightarrow> Inr (Ok (Model c))
           | Inr (Err e) \<Rightarrow> Inr (Err e))
      | Inr (Ok Nothing) \<Rightarrow> Inr (Ok (Opt Nothing))
      | Inr (Err e) \<Rightarrow> Inr (Err e))"

section \<open>Lemmas about iterators and pipelines\<close>

lemma py_next_frame:
  "py_next it h = (r, h') \<Longrightarrow>
     (a \<noteq> source it \<longrightarrow> h' a = h a) \<and> (r = None \<longrightarrow> h' (source it) = [])"
proof (induction it h arbitrary: r h' rule: py_next.induct)
  case (1 a h)
  then show ?case by (cases "h a") auto
next
  case (2 func it h)
  obtain r1 h1 where eq: "py_next it h = (r1, h1)" by (cases "py_next it h")
  from 2(1) [OF eq] 2(2) eq show ?case by (cases r1) (auto simp: py_next_Map)
next
  case (3 func it h)
  obtain r1 h1 where eq: "py_next it h = (r1, h1)" by (cases "py_next it h")
  note h1 = 3(1) [OF eq]
  show ?case
  proof (cases r1)
    case None
    with 3(3) eq h1 show ?thesis by (auto simp: py_next_Filter)
  next
    case (Some item)
    show ?thesis
    proof (cases "truthy (func item)")
      case True
      with 3(3) eq Some h1 show ?thesis by (auto simp: py_next_Filter)
    next
      case False
      with 3(3) eq Some have "py_next (FilterIt func it) h1 = (r, h')"
        by (simp add: py_next_Filter)
      from 3(2) [OF eq [symmetric] Some False this] h1 show ?thesis by auto
    qed
  qed
next
  case (4 func it h)
  obtain r1 h1 where eq: "py_next it h = (r1, h1)" by (cases "py_next it h")
  note h1 = 4(1) [OF eq]
  show ?case
  proof (cases r1)
    case None
    with 4(3) eq h1 show ?thesis by (auto simp: py_next_FilterMap)
  next
    case (Some item)
    show ?thesis
    proof (cases "truthy (func item)")
      case True
      with 4(3) eq Some h1 show ?thesis by (auto simp: py_next_FilterMap)
    next
      case False
      with 4(3) eq Some have "py_next (FilterMapIt func it) h1 = (r, h')"
        by (simp add: py_next_FilterMap)
      from 4(2) [OF eq [symmetric] Some False this] h1 show ?thesis by auto
    qed
  qed
qed

lemma drain_unfold:
  "py_next it h = (r, h1) \<Longrightarrow>
   drain it h = (case r of None \<Rightarrow> ([], h1)
                 | Some item \<Rightarrow> (item # fst (drain it h1), snd (drain it h1)))"
  by (subst drain.simps) (simp split: option.splits prod.splits)

lemma drain_heap_at: "snd (drain it h) a = (if a = source it then [] else h a)"
proof (induction it h rule: drain.induct)
  case (1 it h)
  obtain r h1 where eq: "py_next it h = (r, h1)" by (cases "py_next it h")
  note fr = py_next_frame [OF eq, of a]
  show ?case
  proof (cases r)
    case None
    with eq fr show ?thesis by (simp add: drain_unfold)
  next
    case (Some item)
    from 1 [OF eq [symmetric] Some] eq Some fr show ?thesis by (simp add: drain_unfold)
  qed
qed

lemma drain_heap: "snd (drain it h) = h(source it := [])"
  by (rule ext) (simp add: drain_heap_at)

lemma py_next_exhausted: "h (source it) = [] \<Longrightarrow> py_next it h = (None, h)"
  by (induction it) (simp_all add: py_next_Filter py_next_FilterMap)

lemma drain_exhausted: "h (source it) = [] \<Longrightarrow> drain it h = ([], h)"
  by (simp add: drain_unfold [OF py_next_exhausted])

lemma drain_Map:
  "drain (MapIt func it) h = (map func (fst (drain it h)), snd (drain it h))"
proof (induction it h rule: drain.induct)
  case (1 it h)
  obtain r h1 where eq: "py_next it h = (r, h1)" by (cases "py_next it h")
  show ?case
  proof (cases r)
    case None
    with eq show ?thesis by (simp add: drain_unfold [OF eq] drain_unfold [OF py_next_Map [OF eq]])
  next
    case (Some item)
    from 1 [OF eq [symmetric] Some] Some show ?thesis
      by (simp add: drain_unfold [OF eq] drain_unfold [OF py_next_Map [OF eq]])
  qed
qed

lemma drain_Filter:
  "drain (FilterIt func it) h =
     (filter (\<lambda>item. truthy (func item)) (fst (drain it h)), snd (drain it h))"
proof (induction it h rule: drain.induct)
  case (1 it h)
  obtain r h1 where eq: "py_next it h = (r, h1)" by (cases "py_next it h")
  show ?case
  proof (cases r)
    case None
    with eq have "py_next (FilterIt func it) h = (None, h1)" by (simp add: py_next_Filter)
    from drain_unfold [OF this] None show ?thesis by (simp add: drain_unfold [OF eq])
  next
    case (Some item)
    note IH = 1 [OF eq [symmetric] Some]
    show ?thesis
    proof (cases "truthy (func item)")
      case True
      with eq Some have "py_next (FilterIt func it) h = (Some item, h1)"
        by (simp add: py_next_Filter)
      from drain_unfold [OF this] IH Some True show ?thesis by (simp add: drain_unfold [OF eq])
    next
      case False
      with eq Some have nx: "py_next (FilterIt func it) h = py_next (FilterIt func it) h1"
        by (simp add: py_next_Filter)
      have "drain (FilterIt func it) h = drain (FilterIt func it) h1"
        by (subst drain.simps, subst (2) drain.simps) (simp add: nx)
      with IH Some False show ?thesis by (simp add: drain_unfold [OF eq])
    qed
  qed
qed

lemma drain_FilterMap:
  "drain (FilterMapIt func it) h =
     (filter truthy (map func (fst (drain it h))), snd (drain it h))"
proof (induction it h rule: drain.induct)
  case (1 it h)
  obtain r h1 where eq: "py_next it h = (r, h1)" by (cases "py_next it h")
  show ?case
  proof (cases r)
    case None
    with eq have "py_next (FilterMapIt func it) h = (None, h1)" by (simp add: py_next_FilterMap)
    from drain_unfold [OF this] None show ?thesis by (simp add: drain_unfold [OF eq])
  next
    case (Some item)
    note IH = 1 [OF eq [symmetric] Some]
    show ?thesis
    proof (cases "truthy (func item)")
      case True
      with eq Some have "py_next (FilterMapIt func it) h = (Some (func item), h1)"
        by (simp add: py_next_FilterMap)
      from drain_unfold [OF this] IH Some True show ?thesis by (simp add: drain_unfold [OF eq])
    next
      case False
      with eq Some have nx: "py_next (FilterMapIt func it) h = py_next (FilterMapIt func it) h1"
        by (simp add: py_next_FilterMap)
      have "drain (FilterMapIt func it) h = drain (FilterMapIt func it) h1"
        by (subst drain.simps, subst (2) drain.simps) (simp add: nx)
      with IH Some False show ?thesis by (simp add: drain_unfold [OF eq])
    qed
  qed
qed

lemma drain_Source: "drain (Source a) h = (h a, h(a := []))"
proof -
  have "fst (drain (Source a) h) = h a"
  proof (induction "h a" arbitrary: h)
    case Nil
    then show ?case by (simp add: drain_exhausted)
  next
    case (Cons x xs)
    from Cons(2) have nx: "py_next (Source a) h = (Some x, h(a := xs))"
      by (cases "h a") auto
    have "xs = (h(a := xs)) a" by simp
    from Cons(1) [of "h(a := xs)", OF this] Cons(2) [symmetric] show ?case
      by (simp add: drain_unfold [OF nx])
  qed
  moreover have "snd (drain (Source a) h) = h(a := [])"
    using drain_heap [of "Source a" h] by simp
  ultimately show ?thesis by (cases "drain (Source a) h") simp
qed

lemma truthy_py_bool: "truthy (py_bool v) = truthy v"
  by (simp add: py_bool_def)

lemma source_apply_stage: "source (iterator_of (apply_stage p s)) = source (iterator_of p)"
  by (cases s) (simp_all add: Pipeline_map_def Pipeline_filter_def Pipeline_filter_map_def)

lemma source_derive: "source (iterator_of (derive p stages)) = source (iterator_of p)"
  unfolding derive_def
  by (induction stages arbitrary: p) (simp_all add: source_apply_stage)

lemma collect_as_heap:
  "snd (Pipeline_collect_as cls p h) = h(source (iterator_of p) := [])"
  using drain_heap [of "iterator_of p" h]
  by (cases "drain (iterator_of p) h") (simp add: Pipeline_collect_as_def Let_def)

lemma collect_as_exhausted:
  "h (source (iterator_of p)) = [] \<Longrightarrow> Pipeline_collect_as cls p h = (Nothing, h)"
  by (cases cls) (simp_all add: Pipeline_collect_as_def drain_exhausted)








section \<open>Lemmas about the event storage and the calendar tracker\<close>

lemma as_async_result_Inr [simp]: "as_async_result E (\<lambda>u. Inr v) x = Inr (Ok v)"
  by (simp add: as_async_result_def)

lemma as_result_Inr [simp]: "as_result E (\<lambda>u. Inr (g u)) x = Inr (Ok (g x))"
  by (simp add: as_result_def)

lemma CalendarEvent_from_eq:
  "CalendarEvent_from obj =
     (case CalendarEvent_fields (adjusted obj) of
        Some e \<Rightarrow> Inr (Ok e)
      | None \<Rightarrow> Inr (Err (Exc ValidationError (PDoc (adjusted obj)))))"
  by (simp add: CalendarEvent_from_def CalendarEvent_model_validate_def as_result_def
      isinstance_def issubclass_def split: option.splits)

lemma to_dict_eq [simp]: "CalendarEvent_to_dict e = Inr (Ok (CalendarEvent_dump e))"
  by (simp add: CalendarEvent_to_dict_def)

lemma update_tracked_eq [simp]:
  "CalendarEvent_update_tracked t e = Inr (Ok (e\<lparr>tracked := t\<rparr>))"
  by (simp add: CalendarEvent_update_tracked_def)

lemma dump_id [simp]: "CalendarEvent_dump e ''_id'' = Some (BStr (event_id e))"
  by (simp add: CalendarEvent_dump_def)

lemma create_or_update_event_eq:
  "create_or_update_event fault e coll =
     EventStorage_update_by_id fault (event_id e) (set_fields_of e) coll"
  by (simp add: create_or_update_event_def ok_def set_fields_of_def)

lemma set_fields_no_id [simp]: "set_fields_of e ''_id'' = None" "set_fields_of e ''id'' = None"
  by (simp_all add: set_fields_of_def CalendarEvent_dump_def)

lemma set_fields_tracked [simp]: "set_fields_of e ''tracked'' = Some (BBool (tracked e))"
  by (simp add: set_fields_of_def CalendarEvent_dump_def)


lemma update_one_found:
  "find_one i coll = Some raw \<Longrightarrow> f ''_id'' = None \<Longrightarrow>
     find_one i (fst (update_one i f coll)) = Some (raw ++ f) \<and> snd (update_one i f coll) = 1"
  unfolding find_one_def
  by (induction coll) (auto simp: has_id_def map_add_def split: if_splits prod.splits)

lemma map_add_twice: "(d ++ f) ++ f = d ++ (f :: doc)"
  by (rule ext) (simp add: map_add_def split: option.splits)

lemma has_id_add: "f ''_id'' = None \<Longrightarrow> has_id i (d ++ f) = has_id i d"
  by (simp add: has_id_def map_add_def)

lemma has_id_new: "has_id i [''_id'' \<mapsto> BStr i]"
  by (simp add: has_id_def)

lemma update_one_twice:
  "f ''_id'' = None \<Longrightarrow>
     fst (update_one i f (fst (update_one i f coll))) = fst (update_one i f coll)"
  by (induction coll)
     (auto simp: has_id_add has_id_new map_add_twice split: if_splits prod.splits)


lemma fields_add_dump [simp]: "CalendarEvent_fields (raw ++ CalendarEvent_dump e) = Some e"
  by (simp add: CalendarEvent_fields_def CalendarEvent_dump_def get_str_def get_pair_def
      get_date_def tracked_of_def map_add_def)

lemma get_by_id_ok:
  "EventStorage_get_by_id None i coll =
     Inr (Ok (case find_one i coll of Some d \<Rightarrow> Something d | None \<Rightarrow> Nothing))"
  by (simp add: EventStorage_get_by_id_def as_async_result_def split: option.splits)

lemma get_by_id_fault:
  "EventStorage_get_by_id (Some e) i coll =
     (if isinstance e [PyMongoError, AttributeError] then Inr (Err e) else Inl e)"
  by (simp add: EventStorage_get_by_id_def as_async_result_def)

lemma get_event_ok:
  "get_event None i coll =
     (case find_one i coll of
        None \<Rightarrow> Inr (Ok Nothing)
      | Some raw \<Rightarrow>
          (case CalendarEvent_fields (adjusted raw) of
             Some e \<Rightarrow> Inr (Ok (Something e))
           | None \<Rightarrow> Inr (Err (Exc ValidationError (PDoc (adjusted raw))))))"
  by (simp add: get_event_def get_by_id_ok CalendarEvent_from_eq split: option.splits)

lemma get_event_fault:
  "get_event (Some e) i coll =
     (if isinstance e [PyMongoError, AttributeError] then Inr (Err e) else Inl e)"
  by (simp add: get_event_def get_by_id_fault)

lemma update_by_id_ok:
  "EventStorage_update_by_id None i f coll
     = (Inr (Ok (snd (update_one i f coll))), fst (update_one i f coll))"
  by (simp add: EventStorage_update_by_id_def split: prod.splits)

lemma update_by_id_fault:
  "EventStorage_update_by_id (Some e) i f coll =
     (if isinstance e [PyMongoError, AttributeError] then Inr (Err e) else Inl e, coll)"
  by (simp add: EventStorage_update_by_id_def as_async_result_def)

lemma create_event_raises:
  "create_event None e coll = (Inl (Exc TypeError (PCalendarEvent e)), coll)"
  by (simp add: create_event_def EventStorage_insert_def insert_body_def as_async_result_def
      isinstance_def issubclass_def)

lemma create_event_state: "snd (create_event fault e coll) = coll"
  by (cases fault)
     (simp_all add: create_event_def EventStorage_insert_def insert_body_def)

lemma sync_event_state:
  "snd (sync_event flt ev coll) =
     (case (read_fault flt, write_fault flt, stored_tracked coll (event_id ev)) of
        (None, None, Some t) \<Rightarrow>
          fst (update_one (event_id ev) (set_fields_of (ev\<lparr>tracked := t\<rparr>)) coll)
      | _ \<Rightarrow> coll)"
proof (cases "read_fault flt")
  case (Some e)
  then show ?thesis by (simp add: sync_event_def get_event_fault)
next
  case None
  note rf = this
  show ?thesis
  proof (cases "find_one (event_id ev) coll")
    case None
    with rf show ?thesis
      using create_event_state [of "write_fault flt" ev coll]
      by (cases "create_event (write_fault flt) ev coll")
         (auto simp: sync_event_def get_event_ok stored_tracked_def
               split: sum.splits Result.splits option.splits)
  next
    case (Some raw)
    note fo = this
    show ?thesis
    proof (cases "CalendarEvent_fields (adjusted raw)")
      case None
      with rf fo show ?thesis
        by (simp add: sync_event_def get_event_ok stored_tracked_def CalendarEvent_from_eq
            split: option.splits)
    next
      case (Some existing)
      with rf fo show ?thesis
        by (cases "write_fault flt")
           (simp_all add: sync_event_def get_event_ok stored_tracked_def CalendarEvent_from_eq
              ok_def create_or_update_event_eq update_by_id_ok update_by_id_fault)
    qed
  qed
qed

lemma tracked_after_update:
  "CalendarEvent_fields (adjusted (raw ++ set_fields_of e)) = Some e' \<Longrightarrow> tracked e' = tracked e"
  by (auto simp: CalendarEvent_fields_def tracked_of_def adjusted_def map_add_def
      split: option.splits Option.bind_splits bson.splits)

lemma create_event_never_ok: "fst (create_event fault e coll) \<noteq> Inr (Ok b)"
  by (cases fault)
     (simp_all add: create_event_def EventStorage_insert_def insert_body_def as_async_result_def
        isinstance_def issubclass_def)

lemma sync_event_Ok:
  "fst (sync_event flt ev coll) = Inr (Ok r) \<longleftrightarrow>
     read_fault flt = None \<and> write_fault flt = None
     \<and> (\<exists>t. stored_tracked coll (event_id ev) = Some t \<and> r = ev\<lparr>tracked := t\<rparr>)"
proof (cases "read_fault flt")
  case (Some e)
  then show ?thesis by (simp add: sync_event_def get_event_fault)
next
  case None
  note rf = this
  show ?thesis
  proof (cases "find_one (event_id ev) coll")
    case None
    with rf show ?thesis
      using create_event_never_ok [of "write_fault flt" ev coll]
      by (cases "create_event (write_fault flt) ev coll")
         (auto simp: sync_event_def get_event_ok stored_tracked_def
               split: sum.splits Result.splits option.splits)
  next
    case (Some raw)
    note fo = this
    show ?thesis
    proof (cases "CalendarEvent_fields (adjusted raw)")
      case None
      with rf fo show ?thesis
        by (simp add: sync_event_def get_event_ok stored_tracked_def CalendarEvent_from_eq
            split: option.splits)
    next
      case (Some existing)
      with rf fo show ?thesis
        by (cases "write_fault flt")
           (auto simp: sync_event_def get_event_ok stored_tracked_def CalendarEvent_from_eq
              ok_def create_or_update_event_eq update_by_id_ok update_by_id_fault)
    qed
  qed
qed

lemma stored_tracked_after:
  assumes "stored_tracked coll (event_id ev) = Some t"
  shows "stored_tracked (fst (update_one (event_id ev) (set_fields_of (ev\<lparr>tracked := t\<rparr>)) coll))
           (event_id ev) \<in> {None, Some t}"
proof -
  from assms obtain raw where fo: "find_one (event_id ev) coll = Some raw"
    by (auto simp: stored_tracked_def split: option.splits)
  from update_one_found [OF fo, of "set_fields_of (ev\<lparr>tracked := t\<rparr>)"]
  have "find_one (event_id ev)
          (fst (update_one (event_id ev) (set_fields_of (ev\<lparr>tracked := t\<rparr>)) coll))
        = Some (raw ++ set_fields_of (ev\<lparr>tracked := t\<rparr>))"
    by simp
  then show ?thesis
    using tracked_after_update [of raw "ev\<lparr>tracked := t\<rparr>"]
    by (auto simp: stored_tracked_def CalendarEvent_from_eq split: option.splits)
qed

lemma sync_event_again:
  assumes "stored_tracked coll (event_id ev) = Some t"
  shows "snd (sync_event flt2 ev
               (fst (update_one (event_id ev) (set_fields_of (ev\<lparr>tracked := t\<rparr>)) coll)))
         = fst (update_one (event_id ev) (set_fields_of (ev\<lparr>tracked := t\<rparr>)) coll)"
  using stored_tracked_after [OF assms]
        update_one_twice [of "set_fields_of (ev\<lparr>tracked := t\<rparr>)" "event_id ev" coll]
  by (auto simp: sync_event_state split: option.splits)

lemma adjusted_dump: "adjusted (CalendarEvent_dump e) = CalendarEvent_dump e"
  by (simp add: adjusted_def CalendarEvent_dump_def)

lemma fields_dump: "CalendarEvent_fields (CalendarEvent_dump e) = Some e"
  using fields_add_dump [of Map.empty e] by simp

lemma from_dump: "CalendarEvent_from (CalendarEvent_dump e) = Inr (Ok e)"
  by (simp add: CalendarEvent_from_eq adjusted_dump fields_dump)

section \<open>Lemmas about the scheduled-window query\<close>

lemma find_eq:
  "EventStorage_find q coll a h
     = (Inr (Ok (FilterIt (\<lambda>doc. doc) (Source a))), h(a := map PDoc (filter (matches q) coll)))"
  by (simp add: EventStorage_find_def as_result_def)








section \<open>Lemmas about the disaster tracker and the channel registry\<close>

lemma DisasterEvent_from_eq:
  "DisasterEvent_from obj =
     (case DisasterEvent_fields (adjusted obj) of
        Some e \<Rightarrow> Inr (Ok e)
      | None \<Rightarrow> Inr (Err (Exc ValidationError (PDoc (adjusted obj)))))"
  by (simp add: DisasterEvent_from_def DisasterEvent_model_validate_def as_result_def
      isinstance_def issubclass_def split: option.splits)

lemma scan_eq:
  "scan_active_disasters dest point coll a h =
     map_prod Inr (\<lambda>h'. h') (AsyncPipeline_collect_as TupleType
       (AsyncPipeline_filter_map disaster_or_none (AsyncPipeline (FilterIt (\<lambda>doc. doc) (Source a))))
       (h(a := map PDoc (filter (matches
           [(''lat'', Between (BFloat (fst (dest point DISASTER_DISTANCE_THRESHOLD_KM 225)))
                              (BFloat (fst (dest point DISASTER_DISTANCE_THRESHOLD_KM 45)))),
            (''lon'', Between (BFloat (snd (dest point DISASTER_DISTANCE_THRESHOLD_KM 225)))
                              (BFloat (snd (dest point DISASTER_DISTANCE_THRESHOLD_KM 45)))),
            (''active'', Equals (BBool True))]) coll))))"
  by (simp add: scan_active_disasters_def find_eq split: prod.splits)

lemma collect_eq:
  "AsyncPipeline_collect_as TupleType
       (AsyncPipeline_filter_map func (AsyncPipeline (FilterIt (\<lambda>doc. doc) (Source a))))
       (h(a := items))
   = (if filter truthy (map func (filter truthy items)) = [] then Nothing
      else Something (TupleOf (filter truthy (map func (filter truthy items)))),
      h(a := []))"
  by (simp add: AsyncPipeline_collect_as_def AsyncPipeline_filter_map_def drain_FilterMap
      drain_Filter drain_Source)

lemma ChannelInfo_from_eq:
  "ChannelInfo_from obj =
     (case ChannelInfo_fields (adjusted obj) of
        Some c \<Rightarrow> Inr (Ok c)
      | None \<Rightarrow> Inr (Err (Exc ValidationError (PDoc (adjusted obj)))))"
  by (simp add: ChannelInfo_from_def ChannelInfo_model_validate_def as_result_def
      isinstance_def issubclass_def split: option.splits)

section \<open>The exception-to-Result boundary: properties\<close>

text \<open>
  C6 (as the code has it). \<open>as_result E f\<close> returns \<open>Err e\<close> exactly when \<open>f\<close> raises
  \<open>e\<close> and \<open>e\<close> is an instance of a class of \<open>E\<close> (a subclass counts), or \<open>E\<close> is
  empty and \<open>e\<close> is an instance of \<open>Exception\<close>, or \<open>e\<close> is an \<open>UnwrapError\<close>; it
  re-raises \<open>e\<close> exactly in the remaining cases. \<open>as_async_result\<close> is the same
  without the \<open>UnwrapError\<close> case.
\<close>

theorem as_result_boundary:
  "(as_result E f x = Inr (Err e) \<longleftrightarrow>
      f x = Inl e \<and>
      ((\<exists>c \<in> set E. issubclass (kind e) c) \<or> (E = [] \<and> issubclass (kind e) Exception)
        \<or> issubclass (kind e) UnwrapError))
   \<and> (as_result E f x = Inl e \<longleftrightarrow>
      f x = Inl e \<and>
      \<not> ((\<exists>c \<in> set E. issubclass (kind e) c) \<or> (E = [] \<and> issubclass (kind e) Exception)
        \<or> issubclass (kind e) UnwrapError))
   \<and> (as_async_result E f x = Inr (Err e) \<longleftrightarrow>
      f x = Inl e \<and>
      ((\<exists>c \<in> set E. issubclass (kind e) c) \<or> (E = [] \<and> issubclass (kind e) Exception)))
   \<and> (as_async_result E f x = Inl e \<longleftrightarrow>
      f x = Inl e \<and>
      \<not> ((\<exists>c \<in> set E. issubclass (kind e) c) \<or> (E = [] \<and> issubclass (kind e) Exception)))"
  by (cases "f x"; cases "E = []";
      auto simp: as_result_def as_async_result_def isinstance_def)

text \<open>
  C6 as the claim states it fails twice: with \<open>KeyError\<close> declared, a raised
  \<open>UnwrapError\<close> (not a \<open>KeyError\<close>) comes back as \<open>Err\<close>; and with nothing declared,
  a raised \<open>ValueError\<close> comes back as \<open>Err\<close>.
\<close>

theorem as_result_boundary_counterexample:
  "as_result [KeyError] (\<lambda>u::unit. (Inl (Exc UnwrapError PNone) :: exc + unit)) ()
     = Inr (Err (Exc UnwrapError PNone))
   \<and> \<not> issubclass UnwrapError KeyError
   \<and> as_result [] (\<lambda>u::unit. (Inl (Exc ValueError PNone) :: exc + unit)) ()
     = Inr (Err (Exc ValueError PNone))
   \<and> ValueError \<notin> set []"
  by (simp add: as_result_def isinstance_def issubclass_def)

section \<open>Pipelines: properties\<close>

text \<open>
  C8 (as the code has it). Whatever the source yields, the items produced by
  \<open>Pipeline.filter_map func\<close> and by \<open>AsyncPipeline.filter_map func\<close> are exactly the
  results \<open>func item\<close> that are truthy, in the order of the input: a result is dropped if
  and only if \<^verbatim>\<open>bool\<close> of it is false. \<open>Nothing()\<close> and \<open>Err(e)\<close> are truthy, like
  \<open>Something(v)\<close> and \<open>Ok(v)\<close>, and are kept; \<^verbatim>\<open>None\<close>, \<^verbatim>\<open>False\<close>, zero and
  the empty string, list, tuple and dict are dropped.
\<close>

theorem filter_map_keeps_truthy:
  "fst (drain (iterator_of (Pipeline_filter_map func p)) h)
     = filter truthy (map func (fst (drain (iterator_of p) h)))
   \<and> fst (drain (generator_of (AsyncPipeline_filter_map func q)) h)
     = filter truthy (map func (fst (drain (generator_of q) h)))
   \<and> truthy PNothing \<and> truthy (PErr e) \<and> truthy (PSomething v) \<and> truthy (POk v)
   \<and> \<not> truthy PNone \<and> \<not> truthy (PBool False) \<and> \<not> truthy (PInt 0)
   \<and> \<not> truthy (PStr []) \<and> \<not> truthy (PList []) \<and> \<not> truthy (PTuple []) \<and> \<not> truthy (PDict [])"
  by (simp add: Pipeline_filter_map_def AsyncPipeline_filter_map_def drain_Filter drain_Map
      drain_FilterMap truthy_py_bool)

text \<open>
  C8 as the claim states it fails: a transformer that returns \<open>Nothing()\<close>, or
  \<open>Err(x)\<close>, has its result kept and collected, and a transformer that returns \<open>0\<close>
  (neither absent nor a failure) has its result dropped.
\<close>

theorem filter_map_drop_counterexample:
  "fst (Pipeline_collect_as ListType
         (Pipeline_filter_map (\<lambda>x. PNothing) (Pipeline (Source 0))) (\<lambda>a. [PInt 1]))
     = Something (ListOf [PNothing])
   \<and> fst (AsyncPipeline_collect_as ListType
         (AsyncPipeline_filter_map (\<lambda>x. PErr x) (AsyncPipeline (Source 0))) (\<lambda>a. [PInt 1]))
     = Something (ListOf [PErr (PInt 1)])
   \<and> fst (Pipeline_collect_as ListType
         (Pipeline_filter_map (\<lambda>x. PInt 0) (Pipeline (Source 0))) (\<lambda>a. [PInt 1]))
     = Nothing"
  by (simp add: Pipeline_collect_as_def AsyncPipeline_collect_as_def Pipeline_filter_map_def
      AsyncPipeline_filter_map_def drain_Filter drain_Map drain_FilterMap drain_Source
      truthy_py_bool)

text \<open>
  C10. Take any pipeline \<open>p\<close> and any two pipelines derived from it by chains of
  \<open>map\<close>, \<open>filter\<close> and \<open>filter_map\<close> (the empty chain gives \<open>p\<close> itself). Once
  \<open>collect_as\<close> has run on the first, \<open>collect_as\<close> on the second returns
  \<open>Nothing\<close> and \<^verbatim>\<open>next\<close> on its iterator yields no item: they share one
  underlying iterator, which is exhausted.
\<close>

theorem collect_as_exhausts:
  "Pipeline_collect_as cls2 (derive p stages2)
       (snd (Pipeline_collect_as cls1 (derive p stages1) h))
     = (Nothing, snd (Pipeline_collect_as cls1 (derive p stages1) h))
   \<and> py_next (iterator_of (derive p stages2))
       (snd (Pipeline_collect_as cls1 (derive p stages1) h))
     = (None, snd (Pipeline_collect_as cls1 (derive p stages1) h))"
  by (simp add: collect_as_heap source_derive collect_as_exhausted py_next_exhausted)



section \<open>The calendar tracker: properties\<close>



text \<open>
  C3. For every collection, incoming event and driver behaviour, running \<open>sync_event\<close>
  a second time leaves the collection as the first run left it. When the first run
  returned \<open>Ok\<close>, this holds whatever the driver does in the second run, and a second
  run that returns \<open>Ok\<close> returns the same record, with the same \<open>tracked\<close> bit.
\<close>

theorem sync_event_idempotent:
  "snd (sync_event flt ev (snd (sync_event flt ev coll))) = snd (sync_event flt ev coll)
   \<and> (fst (sync_event flt ev coll) = Inr (Ok r) \<longrightarrow>
        snd (sync_event flt2 ev (snd (sync_event flt ev coll))) = snd (sync_event flt ev coll)
        \<and> (fst (sync_event flt2 ev (snd (sync_event flt ev coll))) = Inr (Ok r2) \<longrightarrow> r2 = r))"
proof (intro conjI impI)
  show "snd (sync_event flt ev (snd (sync_event flt ev coll))) = snd (sync_event flt ev coll)"
  proof (cases "read_fault flt = None \<and> write_fault flt = None
                \<and> stored_tracked coll (event_id ev) \<noteq> None")
    case True
    then obtain t where t: "stored_tracked coll (event_id ev) = Some t" by auto
    with True have "snd (sync_event flt ev coll)
        = fst (update_one (event_id ev) (set_fields_of (ev\<lparr>tracked := t\<rparr>)) coll)"
      by (simp add: sync_event_state)
    with sync_event_again [OF t] show ?thesis by simp
  next
    case False
    then have "snd (sync_event flt ev coll) = coll"
      by (auto simp: sync_event_state split: option.splits)
    then show ?thesis by simp
  qed
next
  assume ok1: "fst (sync_event flt ev coll) = Inr (Ok r)"
  then obtain t where f: "read_fault flt = None" "write_fault flt = None"
    and t: "stored_tracked coll (event_id ev) = Some t" and r: "r = ev\<lparr>tracked := t\<rparr>"
    by (auto simp: sync_event_Ok)
  from f t have c1: "snd (sync_event flt ev coll)
        = fst (update_one (event_id ev) (set_fields_of (ev\<lparr>tracked := t\<rparr>)) coll)"
    by (simp add: sync_event_state)
  with sync_event_again [OF t]
  show "snd (sync_event flt2 ev (snd (sync_event flt ev coll))) = snd (sync_event flt ev coll)"
    by simp
  assume "fst (sync_event flt2 ev (snd (sync_event flt ev coll))) = Inr (Ok r2)"
  then obtain t' where "stored_tracked (snd (sync_event flt ev coll)) (event_id ev) = Some t'"
    and "r2 = ev\<lparr>tracked := t'\<rparr>"
    by (auto simp: sync_event_Ok)
  with stored_tracked_after [OF t] c1 r show "r2 = r" by auto
qed

text \<open>C3 at a stored event: two runs, the second on the collection the first left.\<close>

theorem sync_event_idempotent_witness:
  "fst (sync_event \<lparr>read_fault = None, write_fault = None\<rparr>
       \<lparr>event_id = ''e1'', summary = ''Moved'', location = ''Kyiv'', coordinates = (50, 30),
        creator = ''a@b.c'', start = 10, end_time = 20, link = ''l'', tracked = False\<rparr>
       [CalendarEvent_dump
         \<lparr>event_id = ''e1'', summary = ''Lunch'', location = ''Kyiv'', coordinates = (50, 30),
          creator = ''a@b.c'', start = 10, end_time = 20, link = ''l'', tracked = True\<rparr>])
     = Inr (Ok \<lparr>event_id = ''e1'', summary = ''Moved'', location = ''Kyiv'',
                coordinates = (50, 30), creator = ''a@b.c'', start = 10, end_time = 20,
                link = ''l'', tracked = True\<rparr>)
   \<and> snd (sync_event \<lparr>read_fault = None, write_fault = None\<rparr>
       \<lparr>event_id = ''e1'', summary = ''Moved'', location = ''Kyiv'', coordinates = (50, 30),
        creator = ''a@b.c'', start = 10, end_time = 20, link = ''l'', tracked = False\<rparr>
       (snd (sync_event \<lparr>read_fault = None, write_fault = None\<rparr>
         \<lparr>event_id = ''e1'', summary = ''Moved'', location = ''Kyiv'', coordinates = (50, 30),
          creator = ''a@b.c'', start = 10, end_time = 20, link = ''l'', tracked = False\<rparr>
         [CalendarEvent_dump
           \<lparr>event_id = ''e1'', summary = ''Lunch'', location = ''Kyiv'', coordinates = (50, 30),
            creator = ''a@b.c'', start = 10, end_time = 20, link = ''l'', tracked = True\<rparr>])))
     = snd (sync_event \<lparr>read_fault = None, write_fault = None\<rparr>
         \<lparr>event_id = ''e1'', summary = ''Moved'', location = ''Kyiv'', coordinates = (50, 30),
          creator = ''a@b.c'', start = 10, end_time = 20, link = ''l'', tracked = False\<rparr>
         [CalendarEvent_dump
           \<lparr>event_id = ''e1'', summary = ''Lunch'', location = ''Kyiv'', coordinates = (50, 30),
            creator = ''a@b.c'', start = 10, end_time = 20, link = ''l'', tracked = True\<rparr>])"
proof -
  let ?old = "\<lparr>event_id = ''e1'', summary = ''Lunch'', location = ''Kyiv'',
      coordinates = (50::real, 30::real), creator = ''a@b.c'', start = 10, end_time = 20,
      link = ''l'', tracked = True\<rparr>"
  let ?new = "\<lparr>event_id = ''e1'', summary = ''Moved'', location = ''Kyiv'',
      coordinates = (50::real, 30::real), creator = ''a@b.c'', start = 10, end_time = 20,
      link = ''l'', tracked = False\<rparr>"
  let ?flt = "\<lparr>read_fault = None, write_fault = None\<rparr>"
  have st: "stored_tracked [CalendarEvent_dump ?old] (event_id ?new) = Some True"
    by (simp add: stored_tracked_def find_one_def has_id_def from_dump)
  then have r1: "fst (sync_event ?flt ?new [CalendarEvent_dump ?old])
      = Inr (Ok (?new\<lparr>tracked := True\<rparr>))"
    by (auto simp: sync_event_Ok)
  from sync_event_idempotent [of ?flt ?new "[CalendarEvent_dump ?old]" "?new\<lparr>tracked := True\<rparr>" ?flt]
       r1
  show ?thesis by simp
qed

text \<open>
  C2 (what the code does). When storage holds no record for the id of the incoming
  event and the driver is healthy, \<open>sync_event\<close> neither inserts the event nor returns
  it: \<open>create_event\<close> hands the model, not its dump, to \<open>insert\<close>, whose
  \<^verbatim>\<open>case dict()\<close> does not match it, and the \<^verbatim>\<open>TypeError\<close> of the
  \<^verbatim>\<open>insert_many\<close> branch is not among the exceptions \<open>insert\<close> converts. The
  exception leaves \<open>sync_event\<close>, and the collection is unchanged.
\<close>

theorem sync_event_absent_raises:
  "read_fault flt = None \<and> write_fault flt = None \<and> find_one (event_id updated) coll = None
   \<longrightarrow> sync_event flt updated coll = (Inl (Exc TypeError (PCalendarEvent updated)), coll)"
proof (intro impI, elim conjE)
  assume "read_fault flt = None" "write_fault flt = None"
    "find_one (event_id updated) coll = None"
  then show "sync_event flt updated coll = (Inl (Exc TypeError (PCalendarEvent updated)), coll)"
    by (simp add: sync_event_def get_event_ok create_event_raises)
qed

text \<open>C2 at the empty collection.\<close>

theorem sync_event_absent_raises_witness:
  "sync_event \<lparr>read_fault = None, write_fault = None\<rparr>
     \<lparr>event_id = ''e1'', summary = ''Lunch'', location = ''Kyiv'', coordinates = (50, 30),
      creator = ''a@b.c'', start = 10, end_time = 20, link = ''l'', tracked = False\<rparr> []
   = (Inl (Exc TypeError (PCalendarEvent
       \<lparr>event_id = ''e1'', summary = ''Lunch'', location = ''Kyiv'', coordinates = (50, 30),
        creator = ''a@b.c'', start = 10, end_time = 20, link = ''l'', tracked = False\<rparr>)), [])"
  using sync_event_absent_raises [of "\<lparr>read_fault = None, write_fault = None\<rparr>"
    "\<lparr>event_id = ''e1'', summary = ''Lunch'', location = ''Kyiv'', coordinates = (50, 30),
      creator = ''a@b.c'', start = 10, end_time = 20, link = ''l'', tracked = False\<rparr>" "[]"]
  by (simp add: find_one_def)

section \<open>The scheduled-window query: properties\<close>




section \<open>The disaster tracker: properties\<close>

text \<open>
  C4 (what the code does). The calendar event is at (40, -74); \<open>dest\<close> returns the
  corners (44.5, -67.8) and (35.5, -80.2), the bounding rectangle of the example in the
  specification. With two active hazards stored inside the rectangle, the query yields
  both, and \<open>check_calendar_event\<close> raises \<open>ValidationError\<close> instead of returning
  an alert: the constructor of \<open>DisasterAlert\<close> accepts exactly one hazard. With the
  first hazard alone it returns \<open>Something\<close> of the alert for the creator, the event
  and that hazard, with \<open>dangerous = True\<close>; with no hazard it returns \<open>Nothing\<close>.
\<close>

theorem check_calendar_event_two_hazards:
  "fst (check_calendar_event (\<lambda>p d b. if b = 45 then (44.5, - 67.8) else (35.5, - 80.2))
      \<lparr>event_id = ''e1'', summary = ''s'', location = ''New York'', coordinates = (40, - 74),
      creator = ''a@b.c'', start = 10, end_time = 20, link = ''k'', tracked = False\<rparr>
      [[''_id'' \<mapsto> BStr ''h1'', ''name'' \<mapsto> BStr ''Wildfire'', ''description'' \<mapsto> BStr '''',
      ''link'' \<mapsto> BStr ''u'',
      ''categories'' \<mapsto> BArray [BDoc [(''_id'', BStr ''wildfires''), (''title'', BStr ''Wildfires''),
                                       (''description'', BStr ''Wildfires'')]],
      ''active'' \<mapsto> BBool True, ''lat'' \<mapsto> BFloat 40, ''lon'' \<mapsto> BFloat (- 70),
      ''most_recent_date'' \<mapsto> BDate 0, ''magnitude'' \<mapsto> BStr ''''],
       [''_id'' \<mapsto> BStr ''h2'', ''name'' \<mapsto> BStr ''Wildfire'', ''description'' \<mapsto> BStr '''',
      ''link'' \<mapsto> BStr ''u'',
      ''categories'' \<mapsto> BArray [BDoc [(''_id'', BStr ''wildfires''), (''title'', BStr ''Wildfires''),
                                       (''description'', BStr ''Wildfires'')]],
      ''active'' \<mapsto> BBool True, ''lat'' \<mapsto> BFloat 41, ''lon'' \<mapsto> BFloat (- 71),
      ''most_recent_date'' \<mapsto> BDate 0, ''magnitude'' \<mapsto> BStr '''']] 0 (\<lambda>a. []))
     = Inl (Exc ValidationError PNone)
   \<and> fst (check_calendar_event (\<lambda>p d b. if b = 45 then (44.5, - 67.8) else (35.5, - 80.2))
      \<lparr>event_id = ''e1'', summary = ''s'', location = ''New York'', coordinates = (40, - 74),
      creator = ''a@b.c'', start = 10, end_time = 20, link = ''k'', tracked = False\<rparr>
      [[''_id'' \<mapsto> BStr ''h1'', ''name'' \<mapsto> BStr ''Wildfire'', ''description'' \<mapsto> BStr '''',
      ''link'' \<mapsto> BStr ''u'',
      ''categories'' \<mapsto> BArray [BDoc [(''_id'', BStr ''wildfires''), (''title'', BStr ''Wildfires''),
                                       (''description'', BStr ''Wildfires'')]],
      ''active'' \<mapsto> BBool True, ''lat'' \<mapsto> BFloat 40, ''lon'' \<mapsto> BFloat (- 70),
      ''most_recent_date'' \<mapsto> BDate 0, ''magnitude'' \<mapsto> BStr '''']] 0 (\<lambda>a. []))
     = Inr (Something \<lparr>recipient = ''a@b.c'',
         event = \<lparr>event_id = ''e1'', summary = ''s'', location = ''New York'', coordinates = (40, - 74),
      creator = ''a@b.c'', start = 10, end_time = 20, link = ''k'', tracked = False\<rparr>,
         disasters = [\<lparr>disaster_id = ''h1'', name = ''Wildfire'', description = '''', disaster_link = ''u'',
      categories = [\<lparr>category_id = ''wildfires'', title = ''Wildfires'',
                     category_description = ''Wildfires''\<rparr>],
      active = True, lat = 40, lon = - 70, most_recent_date = 0, magnitude = ''''\<rparr>], dangerous = True\<rparr>)
   \<and> fst (check_calendar_event (\<lambda>p d b. if b = 45 then (44.5, - 67.8) else (35.5, - 80.2))
      \<lparr>event_id = ''e1'', summary = ''s'', location = ''New York'', coordinates = (40, - 74),
      creator = ''a@b.c'', start = 10, end_time = 20, link = ''k'', tracked = False\<rparr>
      [] 0 (\<lambda>a. []))
     = Inr Nothing"
proof -
  let ?h1 = "[''_id'' \<mapsto> BStr ''h1'', ''name'' \<mapsto> BStr ''Wildfire'', ''description'' \<mapsto> BStr '''',
      ''link'' \<mapsto> BStr ''u'',
      ''categories'' \<mapsto> BArray [BDoc [(''_id'', BStr ''wildfires''), (''title'', BStr ''Wildfires''),
                                       (''description'', BStr ''Wildfires'')]],
      ''active'' \<mapsto> BBool True, ''lat'' \<mapsto> BFloat 40, ''lon'' \<mapsto> BFloat (- 70),
      ''most_recent_date'' \<mapsto> BDate 0, ''magnitude'' \<mapsto> BStr '''']"
  let ?h2 = "[''_id'' \<mapsto> BStr ''h2'', ''name'' \<mapsto> BStr ''Wildfire'', ''description'' \<mapsto> BStr '''',
      ''link'' \<mapsto> BStr ''u'',
      ''categories'' \<mapsto> BArray [BDoc [(''_id'', BStr ''wildfires''), (''title'', BStr ''Wildfires''),
                                       (''description'', BStr ''Wildfires'')]],
      ''active'' \<mapsto> BBool True, ''lat'' \<mapsto> BFloat 41, ''lon'' \<mapsto> BFloat (- 71),
      ''most_recent_date'' \<mapsto> BDate 0, ''magnitude'' \<mapsto> BStr '''']"
  have t1: "truthy (PDoc ?h1)" by simp
  have t2: "truthy (PDoc ?h2)" by simp
  have f1: "disaster_or_none (PDoc ?h1) = PDisasterEvent \<lparr>disaster_id = ''h1'', name = ''Wildfire'', description = '''', disaster_link = ''u'',
      categories = [\<lparr>category_id = ''wildfires'', title = ''Wildfires'',
                     category_description = ''Wildfires''\<rparr>],
      active = True, lat = 40, lon = - 70, most_recent_date = 0, magnitude = ''''\<rparr>"
    by (simp add: disaster_or_none_def DisasterEvent_from_eq DisasterEvent_fields_def adjusted_def
        get_str_def get_bool_def get_float_def get_date_def description_of_def categories_of_def
        DisasterCategory_fields_def)
  have f2: "disaster_or_none (PDoc ?h2) = PDisasterEvent \<lparr>disaster_id = ''h2'', name = ''Wildfire'', description = '''', disaster_link = ''u'',
      categories = [\<lparr>category_id = ''wildfires'', title = ''Wildfires'',
                     category_description = ''Wildfires''\<rparr>],
      active = True, lat = 41, lon = - 71, most_recent_date = 0, magnitude = ''''\<rparr>"
    by (simp add: disaster_or_none_def DisasterEvent_from_eq DisasterEvent_fields_def adjusted_def
        get_str_def get_bool_def get_float_def get_date_def description_of_def categories_of_def
        DisasterCategory_fields_def)
  show ?thesis
    unfolding check_calendar_event_def scan_eq collect_eq
    by (simp add: DISASTER_DISTANCE_THRESHOLD_KM_def matches_def t1 t2 f1 f2
        DisasterAlert_new_def del: truthy.simps(13))
qed

section \<open>The channel registry: properties\<close>

text \<open>
  C5 (what the code does). For every channel record, driver behaviour and store,
  \<open>EventChannels.create\<close> raises \<open>AttributeError\<close> and stores nothing: it passes
  the \<open>Result\<close> that \<^verbatim>\<open>to_\<close> returns, not the dictionary in it, as the mapping.
  Had the intended mapping (user email and calendar id, the id left out) been stored
  under the channel id, \<open>EventChannels.get\<close> would return \<open>Err\<close> of a
  \<open>ValidationError\<close>, since the required field \<^verbatim>\<open>id\<close> is not in the hash. And
  whatever the store holds, \<open>get\<close> never returns \<open>Ok\<close> of \<open>Something\<close> of a
  record: a record that validates comes back as \<open>Ok\<close> of the record itself.
\<close>

theorem EventChannels_roundtrip_fails:
  "EventChannels_create fault c r = (Inl (Exc AttributeError PNone), r)
   \<and> EventChannels_get None (channel_id c)
        (r(channels_prefix @ channel_id c \<mapsto> ChannelInfo_dump_exclude_id c))
      = Inr (Err (Exc ValidationError (PDoc (ChannelInfo_dump_exclude_id c))))
   \<and> EventChannels_get fault2 k r2 \<noteq> Inr (Ok (Opt (Something c2)))"
proof (intro conjI)
  show "EventChannels_create fault c r = (Inl (Exc AttributeError PNone), r)"
    by (simp add: EventChannels_create_def ChannelInfo_to_dict_exclude_id_def as_result_def
        QuickStorage_set_map_def hset_def as_async_result_def isinstance_def issubclass_def)
  show "EventChannels_get None (channel_id c)
        (r(channels_prefix @ channel_id c \<mapsto> ChannelInfo_dump_exclude_id c))
      = Inr (Err (Exc ValidationError (PDoc (ChannelInfo_dump_exclude_id c))))"
    by (simp add: EventChannels_get_def QuickStorage_get_map_def as_async_result_def hgetall_def
        ChannelInfo_from_eq ChannelInfo_fields_def adjusted_def get_str_def
        ChannelInfo_dump_exclude_id_def)
  show "EventChannels_get fault2 k r2 \<noteq> Inr (Ok (Opt (Something c2)))"
    by (cases fault2)
       (auto simp: EventChannels_get_def QuickStorage_get_map_def as_async_result_def
          ChannelInfo_from_eq split: option.splits if_splits)
qed

end
